theory Spec2Isabelle
  imports Main "HOL-Library.Word" "HOL-Library.Signed_Division"
begin

section \<open>Native handles, pixel formats and faults\<close>

text \<open>
  A native object (\<open>CMSampleBufferRef\<close>, \<open>CVPixelBufferRef\<close>) is identified by a handle;
  a pointer that may be null is a \<open>handle option\<close>.
\<close>

type_synonym handle = nat

type_synonym OSType = "32 word"

text \<open>The four-character codes of CoreVideo that the sources name.\<close>

definition kCVPixelFormatType_32BGRA :: OSType where
  "kCVPixelFormatType_32BGRA = 0x42475241"

definition kCVPixelFormatType_420YpCbCr8BiPlanarVideoRange :: OSType where
  "kCVPixelFormatType_420YpCbCr8BiPlanarVideoRange = 0x34323076"

definition kCVPixelFormatType_420YpCbCr10BiPlanarVideoRange :: OSType where
  "kCVPixelFormatType_420YpCbCr10BiPlanarVideoRange = 0x78343230"

text \<open>
  \<open>pix_fmt_e\<close> is declared in \<open>src/platform/common.h\<close>, which is not among the sources at
  hand. The three enumerators that \<open>display.mm\<close> and \<open>nv12_zero_device.cpp\<close> name are
  kept; \<open>other_fmt n\<close> stands for every further enumerator.
\<close>

datatype pix_fmt_e = yuv420p | nv12 | p010 | other_fmt nat

text \<open>
  What the C++ leaves undefined is a fault of the model: a null or dangling pointer that is
  dereferenced, an integer division by zero, a signed division that overflows, an
  \<open>atoi\<close> whose value no \<open>int\<close> holds.
\<close>

datatype fault = NullDeref | Dangling | DivByZero | SignedOverflow | OutOfRange

section \<open>The capture session (\<open>ApolloScreenCapture\<close>, screencapture.h / screencapture.mm)\<close>

record SCStreamConfiguration =
  cfg_width :: int
  cfg_height :: int
  cfg_frameRate :: int
  cfg_pixelFormat :: OSType
  cfg_queueDepth :: nat
  cfg_showsCursor :: bool

text \<open>
  \<open>SCStream\<close> belongs to ScreenCaptureKit. The model records the requests the session
  sends to it; its answers (completion handlers, delivered samples) are events that the
  environment supplies.
\<close>

record SCStream =
  start_requests :: nat
  stop_requests :: nat
  update_requests :: nat

text \<open>
  \<open>SCFrameCallbackBlock\<close> is \<open>bool (^)(CMSampleBufferRef)\<close>. The block runs C++ code
  over the state \<open>'w\<close> of the C++ side, which the Objective-C class never inspects; it
  answers "continue capturing" or faults.
\<close>

type_synonym ('f, 'w) SCFrameCallbackBlock = "'f \<Rightarrow> 'w \<Rightarrow> fault + (bool \<times> 'w)"

text \<open>
  The properties of \<open>ApolloScreenCapture\<close> as screencapture.h declares them.
  A \<open>dispatch_semaphore_t\<close> is an index into \<open>semaphores\<close>, the counters of the
  semaphores created so far.
\<close>

record ('f, 'w) ApolloScreenCapture =
  displayID :: "32 word"
  frameWidth :: int
  frameHeight :: int
  frameRate :: int
  pixelFormat :: OSType
  captureHDR :: bool
  stream :: "SCStream option"
  contentFilter :: "32 word option"
  streamConfig :: "SCStreamConfiguration option"
  frameCallback :: "('f, 'w) SCFrameCallbackBlock option"
  captureSemaphore :: "nat option"
  isCapturing :: bool
  semaphores :: "nat list"

text \<open>screencapture.mm, \<open>setFrameWidth:frameHeight:\<close>.\<close>

definition setFrameWidth_frameHeight ::
  "int \<Rightarrow> int \<Rightarrow> ('f, 'w) ApolloScreenCapture \<Rightarrow> ('f, 'w) ApolloScreenCapture" where
  "setFrameWidth_frameHeight w h self =
     (let self1 = self\<lparr>frameWidth := w, frameHeight := h\<rparr> in
      case streamConfig self1 of
        None \<Rightarrow> self1
      | Some cfg \<Rightarrow>
          (let self2 = self1\<lparr>streamConfig := Some (cfg\<lparr>cfg_width := w, cfg_height := h\<rparr>)\<rparr> in
           case stream self2 of
             None \<Rightarrow> self2
           | Some st \<Rightarrow>
               if isCapturing self2
               then self2\<lparr>stream := Some (st\<lparr>update_requests := update_requests st + 1\<rparr>)\<rparr>
               else self2))"

section \<open>Encode devices (display.mm, nv12\_zero\_device.cpp)\<close>

text \<open>
  \<open>AVFrame\<close> of FFmpeg, reduced to the members the device touches: \<open>buf[0]\<close> (a
  reference to an \<open>AVBufferRef\<close>), \<open>data[3]\<close>, \<open>width\<close> and \<open>height\<close>.
\<close>

record AVFrame =
  frame_buf0 :: "nat option"
  frame_data3 :: "handle option"
  frame_width :: int
  frame_height :: int

text \<open>
  \<open>nv12_zero_device\<close> (its header is not among the sources at hand; the members are the
  ones nv12\_zero\_device.cpp assigns). \<open>display\<close> points to the session, of which the model
  has one, so the member records only whether it was set. \<open>frame\<close> points to the encoder's
  \<open>AVFrame\<close>; the model keeps the frame in the device.
\<close>

record 's nv12_zero_device =
  dev_display :: bool
  resolution_fn :: "('s \<Rightarrow> int \<Rightarrow> int \<Rightarrow> 's) option"
  dev_data :: bool
  frame :: "AVFrame option"

definition new_nv12_zero_device :: "'s nv12_zero_device" where
  "new_nv12_zero_device =
     \<lparr>dev_display = False, resolution_fn = None, dev_data = False, frame = None\<rparr>"

text \<open>nv12\_zero\_device.cpp, \<open>nv12_zero_device::init\<close>.\<close>

definition nv12_init ::
  "'s \<Rightarrow> pix_fmt_e \<Rightarrow> ('s \<Rightarrow> int \<Rightarrow> int \<Rightarrow> 's) \<Rightarrow> ('s \<Rightarrow> OSType \<Rightarrow> 's) \<Rightarrow>
   's nv12_zero_device \<Rightarrow> int \<times> 's nv12_zero_device \<times> 's" where
  "nv12_init display pix_fmt res_fn pixel_format_fn this =
     (let pixel_format =
            (case pix_fmt of
               nv12 \<Rightarrow> kCVPixelFormatType_420YpCbCr8BiPlanarVideoRange
             | p010 \<Rightarrow> kCVPixelFormatType_420YpCbCr10BiPlanarVideoRange
             | _ \<Rightarrow> kCVPixelFormatType_420YpCbCr8BiPlanarVideoRange);
          display' = pixel_format_fn display pixel_format
      in (0, this\<lparr>dev_display := True, resolution_fn := Some res_fn, dev_data := True\<rparr>,
          display'))"

text \<open>nv12\_zero\_device.cpp, \<open>nv12_zero_device::set_frame\<close>.\<close>

definition nv12_set_frame ::
  "AVFrame \<Rightarrow> 's nv12_zero_device \<Rightarrow> 's \<Rightarrow> fault + (int \<times> 's nv12_zero_device \<times> 's)" where
  "nv12_set_frame fr this display =
     (case resolution_fn this of
        None \<Rightarrow> Inl NullDeref
      | Some f \<Rightarrow> Inr (0, this\<lparr>frame := Some fr\<rparr>, f display (frame_width fr) (frame_height fr)))"

text \<open>display.mm, \<open>sc_display_t::setResolution\<close> and \<open>sc_display_t::setPixelFormat\<close>.\<close>

definition setResolution ::
  "('f, 'w) ApolloScreenCapture \<Rightarrow> int \<Rightarrow> int \<Rightarrow> ('f, 'w) ApolloScreenCapture" where
  "setResolution display w h = setFrameWidth_frameHeight w h display"

definition setPixelFormat ::
  "('f, 'w) ApolloScreenCapture \<Rightarrow> OSType \<Rightarrow> ('f, 'w) ApolloScreenCapture" where
  "setPixelFormat display pf = display\<lparr>pixelFormat := pf\<rparr>"

text \<open>
  The two devices \<open>make_avcodec_encode_device\<close> can return: the plain
  \<open>avcodec_encode_device_t\<close>, which converts every frame, and the zero-copy device.
\<close>

datatype 's encode_device =
  Avcodec_encode_device
  | Nv12_zero_device "'s nv12_zero_device"

text \<open>
  display.mm, \<open>sc_display_t::make_avcodec_encode_device\<close>; \<open>None\<close> is the null
  \<open>unique_ptr\<close>.
\<close>

definition make_avcodec_encode_device ::
  "pix_fmt_e \<Rightarrow> ('f, 'w) ApolloScreenCapture \<Rightarrow>
   ('f, 'w) ApolloScreenCapture encode_device option \<times> ('f, 'w) ApolloScreenCapture" where
  "make_avcodec_encode_device pix_fmt sc_capture =
     (if pix_fmt = yuv420p then
        (Some Avcodec_encode_device, sc_capture\<lparr>pixelFormat := kCVPixelFormatType_32BGRA\<rparr>)
      else if pix_fmt = nv12 \<or> pix_fmt = p010 then
        (case nv12_init sc_capture pix_fmt setResolution setPixelFormat new_nv12_zero_device of
           (_, device, sc_capture') \<Rightarrow> (Some (Nv12_zero_device device), sc_capture'))
      else (None, sc_capture))"

section \<open>Delivered samples, wrappers and images (av\_img\_t.h)\<close>

text \<open>
  A delivered \<open>CMSampleBufferRef\<close>: its identity, the image buffer
  \<open>CMSampleBufferGetImageBuffer\<close> finds in it (null when the sample carries none), and
  what CoreVideo answers for that image buffer: \<open>CVPixelBufferGetWidth\<close>,
  \<open>CVPixelBufferGetHeight\<close>, \<open>CVPixelBufferGetBytesPerRow\<close> (all \<open>size_t\<close>) and
  \<open>CVPixelBufferGetBaseAddress\<close>.
\<close>

record CMSampleBuffer =
  sample_ref :: handle
  image_buffer :: "handle option"
  px_width :: "64 word"
  px_height :: "64 word"
  px_bytes_per_row :: "64 word"
  px_base_address :: nat

text \<open>
  Modelled from the spec: \<open>av_sample_buf_t\<close>, \<open>av_pixel_buf_t\<close>, \<open>av_img_t\<close> and
  \<open>temp_retain_av_img_t\<close> are declared in \<open>src/platform/macos/av_img_t.h\<close>, which is not
  among the sources at hand. The spec (section 3): a sample wrapper "owns one native
  capture sample for its lifetime; acquiring it increments the native reference count,
  destruction decrements it"; a pixel wrapper "owns one native pixel buffer extracted
  from a sample wrapper; same reference-counting discipline"; the guard "holds a
  temporary third reference to the previous sample wrapper, previous pixel wrapper, and
  previous raw data pointer".

  The sources hold the wrappers through \<open>std::shared_ptr\<close>. A wrapper lives in a heap
  cell with its \<open>use_count\<close>; a cell is never reused, and \<open>use_count = 0\<close> marks a
  destroyed wrapper. \<open>buf\<close> is the native handle (of a pixel wrapper it may be null:
  \<open>nv12_zero_device::convert\<close> tests it).
\<close>

datatype kind = Sample | Pixel

record wrapper =
  buf :: "handle option"
  use_count :: nat

record av_img_t =
  sample_buffer :: "nat option"
  pixel_buffer :: "nat option"
  data :: nat
  width :: int
  height :: int
  row_pitch :: int
  pixel_pitch :: int

record temp_retain_av_img_t =
  retained_sample_buffer :: "nat option"
  retained_pixel_buffer :: "nat option"
  retained_data :: nat

text \<open>
  The state of the C++ side: \<open>native_rc h\<close> is the number of references this code
  holds on the native object \<open>h\<close> (retains minus releases), \<open>heap\<close> the wrappers,
  \<open>images\<close> the \<open>av_img_t\<close> objects by address, \<open>consumer\<close> the state behind the
  consumer's callbacks.
\<close>

record 'c world =
  native_rc :: "handle \<Rightarrow> int"
  heap :: "kind \<Rightarrow> wrapper list"
  images :: "nat \<rightharpoonup> av_img_t"
  consumer :: 'c

definition CFRetain :: "handle \<Rightarrow> 'c world \<Rightarrow> 'c world" where
  "CFRetain h w = w\<lparr>native_rc := (native_rc w)(h := native_rc w h + 1)\<rparr>"

definition CFRelease :: "handle \<Rightarrow> 'c world \<Rightarrow> 'c world" where
  "CFRelease h w = w\<lparr>native_rc := (native_rc w)(h := native_rc w h - 1)\<rparr>"

text \<open>
  \<open>std::make_shared\<close> of a wrapper: the constructor acquires the native reference, the
  new cell has \<open>use_count = 1\<close>.
\<close>

definition make_shared :: "kind \<Rightarrow> handle option \<Rightarrow> 'c world \<Rightarrow> nat \<times> 'c world" where
  "make_shared k b w =
     (let w1 = (case b of None \<Rightarrow> w | Some h \<Rightarrow> CFRetain h w)
      in (length (heap w1 k),
          w1\<lparr>heap := (heap w1)(k := heap w1 k @ [\<lparr>buf = b, use_count = 1\<rparr>])\<rparr>))"

text \<open>Copying a \<open>shared_ptr\<close>; copying a null pointer does nothing.\<close>

definition sp_copy :: "kind \<Rightarrow> nat option \<Rightarrow> 'c world \<Rightarrow> 'c world" where
  "sp_copy k p w =
     (case p of
        None \<Rightarrow> w
      | Some i \<Rightarrow>
          if i < length (heap w k)
          then w\<lparr>heap := (heap w)(k := (heap w k)
                  [i := (heap w k ! i)\<lparr>use_count := use_count (heap w k ! i) + 1\<rparr>])\<rparr>
          else w)"

text \<open>
  Dropping a \<open>shared_ptr\<close>: the last owner destroys the wrapper, whose destructor
  gives the native reference back.
\<close>

definition sp_release :: "kind \<Rightarrow> nat option \<Rightarrow> 'c world \<Rightarrow> 'c world" where
  "sp_release k p w =
     (case p of
        None \<Rightarrow> w
      | Some i \<Rightarrow>
          if i < length (heap w k) then
            (let c = heap w k ! i in
             if use_count c \<le> 1 then
               (let w1 = w\<lparr>heap := (heap w)(k := (heap w k)[i := c\<lparr>use_count := 0\<rparr>])\<rparr>
                in case buf c of None \<Rightarrow> w1 | Some h \<Rightarrow> CFRelease h w1)
             else w\<lparr>heap := (heap w)(k := (heap w k)[i := c\<lparr>use_count := use_count c - 1\<rparr>])\<rparr>)
          else w)"

text \<open>display.mm, \<open>sc_display_t::alloc_img\<close>: a value-initialised \<open>av_img_t\<close>.\<close>

definition alloc_img :: av_img_t where
  "alloc_img = \<lparr>sample_buffer = None, pixel_buffer = None, data = 0,
                width = 0, height = 0, row_pitch = 0, pixel_pitch = 0\<rparr>"

section \<open>The hand-off (display.mm, the blocks of \<open>capture\<close> and \<open>dummy_img\<close>)\<close>

text \<open>
  The locals of a frame block: the two fresh wrappers, the target image (\<open>av_img\<close>,
  which is \<open>img_out\<close> in \<open>capture\<close> and \<open>img\<close> in \<open>dummy_img\<close>) and the guard
  \<open>old_data_retainer\<close> (\<open>None\<close> is the null \<open>shared_ptr\<close>).
\<close>

record locals =
  new_sample_buffer :: nat
  new_pixel_buffer :: nat
  av_img :: nat
  old_data_retainer :: "temp_retain_av_img_t option"

text \<open>
  The statements of display.mm lines 52 to 67 (in \<open>capture\<close>) and 114 to 129 (in
  \<open>dummy_img\<close>), which are the same sequence on \<open>img_out\<close> and on \<open>img\<close>.
\<close>

datatype stmt =
  Construct_retainer
  | Assign_sample_buffer
  | Assign_pixel_buffer
  | Assign_data
  | Assign_width
  | Assign_height
  | Assign_row_pitch
  | Assign_pixel_pitch
  | Reset_retainer

definition hand_off_body :: "stmt list" where
  "hand_off_body =
     [Construct_retainer,
      Assign_sample_buffer, Assign_pixel_buffer, Assign_data,
      Assign_width, Assign_height, Assign_row_pitch, Assign_pixel_pitch,
      Reset_retainer]"

text \<open>The cast \<open>(int)\<close> of a \<open>size_t\<close>: the low 32 bits, read as two's complement.\<close>

definition int_of_size_t :: "64 word \<Rightarrow> int" where
  "int_of_size_t x = sint (ucast x :: 32 word)"

text \<open>
  One statement, one equation. Every statement but the last reaches the image through
  its pointer. The division of \<open>int\<close>s truncates towards zero; by zero, and
  \<open>INT_MIN / -1\<close>, are undefined.
\<close>

fun exec :: "CMSampleBuffer \<Rightarrow> stmt \<Rightarrow> locals \<times> 'c world \<Rightarrow> fault + locals \<times> 'c world" where
  "exec f Construct_retainer (l, w) =
     (case images w (av_img l) of
        None \<Rightarrow> Inl Dangling
      | Some img \<Rightarrow>
          Inr (l\<lparr>old_data_retainer :=
                   Some \<lparr>retained_sample_buffer = sample_buffer img,
                         retained_pixel_buffer = pixel_buffer img,
                         retained_data = data img\<rparr>\<rparr>,
               sp_copy Pixel (pixel_buffer img) (sp_copy Sample (sample_buffer img) w)))"
| "exec f Assign_sample_buffer (l, w) =
     (case images w (av_img l) of
        None \<Rightarrow> Inl Dangling
      | Some img \<Rightarrow>
          (let w1 = sp_copy Sample (Some (new_sample_buffer l)) w;
               w2 = w1\<lparr>images := (images w1)(av_img l \<mapsto>
                         img\<lparr>sample_buffer := Some (new_sample_buffer l)\<rparr>)\<rparr>
           in Inr (l, sp_release Sample (sample_buffer img) w2)))"
| "exec f Assign_pixel_buffer (l, w) =
     (case images w (av_img l) of
        None \<Rightarrow> Inl Dangling
      | Some img \<Rightarrow>
          (let w1 = sp_copy Pixel (Some (new_pixel_buffer l)) w;
               w2 = w1\<lparr>images := (images w1)(av_img l \<mapsto>
                         img\<lparr>pixel_buffer := Some (new_pixel_buffer l)\<rparr>)\<rparr>
           in Inr (l, sp_release Pixel (pixel_buffer img) w2)))"
| "exec f Assign_data (l, w) =
     (case images w (av_img l) of
        None \<Rightarrow> Inl Dangling
      | Some img \<Rightarrow>
          Inr (l, w\<lparr>images := (images w)(av_img l \<mapsto> img\<lparr>data := px_base_address f\<rparr>)\<rparr>))"
| "exec f Assign_width (l, w) =
     (case images w (av_img l) of
        None \<Rightarrow> Inl Dangling
      | Some img \<Rightarrow>
          Inr (l, w\<lparr>images := (images w)(av_img l \<mapsto>
                       img\<lparr>width := int_of_size_t (px_width f)\<rparr>)\<rparr>))"
| "exec f Assign_height (l, w) =
     (case images w (av_img l) of
        None \<Rightarrow> Inl Dangling
      | Some img \<Rightarrow>
          Inr (l, w\<lparr>images := (images w)(av_img l \<mapsto>
                       img\<lparr>height := int_of_size_t (px_height f)\<rparr>)\<rparr>))"
| "exec f Assign_row_pitch (l, w) =
     (case images w (av_img l) of
        None \<Rightarrow> Inl Dangling
      | Some img \<Rightarrow>
          Inr (l, w\<lparr>images := (images w)(av_img l \<mapsto>
                       img\<lparr>row_pitch := int_of_size_t (px_bytes_per_row f)\<rparr>)\<rparr>))"
| "exec f Assign_pixel_pitch (l, w) =
     (case images w (av_img l) of
        None \<Rightarrow> Inl Dangling
      | Some img \<Rightarrow>
          if width img = 0 then Inl DivByZero
          else if row_pitch img = - (2 ^ 31) \<and> width img = - 1 then Inl SignedOverflow
          else Inr (l, w\<lparr>images := (images w)(av_img l \<mapsto>
                            img\<lparr>pixel_pitch := row_pitch img sdiv width img\<rparr>)\<rparr>))"
| "exec f Reset_retainer (l, w) =
     (case old_data_retainer l of
        None \<Rightarrow> Inr (l, w)
      | Some g \<Rightarrow>
          Inr (l\<lparr>old_data_retainer := None\<rparr>,
               sp_release Sample (retained_sample_buffer g)
                 (sp_release Pixel (retained_pixel_buffer g) w)))"

text \<open>A statement sequence runs until a statement faults.\<close>

fun exec_all ::
  "CMSampleBuffer \<Rightarrow> stmt list \<Rightarrow> locals \<times> 'c world \<Rightarrow> fault + locals \<times> 'c world" where
  "exec_all f [] st = Inr st"
| "exec_all f (s # ss) st =
     (case exec f s st of Inl e \<Rightarrow> Inl e | Inr st' \<Rightarrow> exec_all f ss st')"

text \<open>The states a run passes through, each with the statement that produced it.\<close>

fun trace ::
  "CMSampleBuffer \<Rightarrow> stmt list \<Rightarrow> locals \<times> 'c world \<Rightarrow> (stmt \<times> locals \<times> 'c world) list" where
  "trace f [] st = []"
| "trace f (s # ss) st =
     (case exec f s st of Inl e \<Rightarrow> [] | Inr st' \<Rightarrow> (s, st') # trace f ss st')"

text \<open>
  The first two lines of both blocks: \<open>std::make_shared<av_sample_buf_t>(sampleBuffer)\<close>
  and \<open>std::make_shared<av_pixel_buf_t>(new_sample_buffer->buf)\<close>.
\<close>

definition wrap_sample :: "CMSampleBuffer \<Rightarrow> 'c world \<Rightarrow> (nat \<times> nat) \<times> 'c world" where
  "wrap_sample f w =
     (case make_shared Sample (Some (sample_ref f)) w of
        (ns, w1) \<Rightarrow>
          (case make_shared Pixel (image_buffer f) w1 of
             (np, w2) \<Rightarrow> ((ns, np), w2)))"

text \<open>
  Leaving a block destroys its locals in reverse order: \<open>new_pixel_buffer\<close>, then
  \<open>new_sample_buffer\<close>.
\<close>

definition leave_block :: "nat \<times> nat \<Rightarrow> 'c world \<Rightarrow> 'c world" where
  "leave_block p w = sp_release Sample (Some (fst p)) (sp_release Pixel (Some (snd p)) w)"

text \<open>
  The consumer's callbacks. \<open>pull_free_image_cb(img_out)\<close> answers a \<open>bool\<close> and stores
  an image pointer in \<open>img_out\<close> (possibly null); \<open>push_captured_image_cb(img, true)\<close>
  answers a \<open>bool\<close>. Both may change the consumer's state.
\<close>

type_synonym 'c pull_free_image_cb_t = "'c \<Rightarrow> (bool \<times> nat option) \<times> 'c"
type_synonym 'c push_captured_image_cb_t = "nat \<Rightarrow> bool \<Rightarrow> 'c \<Rightarrow> bool \<times> 'c"

text \<open>display.mm lines 42 to 74: the block \<open>sc_display_t::capture\<close> registers.\<close>

definition capture_block ::
  "'c push_captured_image_cb_t \<Rightarrow> 'c pull_free_image_cb_t \<Rightarrow>
   (CMSampleBuffer, 'c world) SCFrameCallbackBlock" where
  "capture_block push_captured_image_cb pull_free_image_cb sampleBuffer w =
     (case wrap_sample sampleBuffer w of
        (new, w1) \<Rightarrow>
          (case pull_free_image_cb (consumer w1) of
             ((pulled, img_out), c1) \<Rightarrow>
               (let w2 = w1\<lparr>consumer := c1\<rparr> in
                if \<not> pulled then Inr (False, leave_block new w2)
                else
                  (case img_out of
                     None \<Rightarrow> Inl NullDeref
                   | Some i \<Rightarrow>
                       (case exec_all sampleBuffer hand_off_body
                               (\<lparr>new_sample_buffer = fst new, new_pixel_buffer = snd new,
                                 av_img = i, old_data_retainer = None\<rparr>, w2) of
                          Inl e \<Rightarrow> Inl e
                        | Inr (l, w3) \<Rightarrow>
                            (case push_captured_image_cb i True (consumer w3) of
                               (pushed, c2) \<Rightarrow>
                                 (let w4 = w3\<lparr>consumer := c2\<rparr> in
                                  if \<not> pushed then Inr (False, leave_block new w4)
                                  else Inr (True, leave_block new w4))))))))"

text \<open>display.mm lines 108 to 132: the block \<open>sc_display_t::dummy_img\<close> registers.\<close>

definition dummy_img_block :: "nat \<Rightarrow> (CMSampleBuffer, 'c world) SCFrameCallbackBlock" where
  "dummy_img_block img sampleBuffer w =
     (case wrap_sample sampleBuffer w of
        (new, w1) \<Rightarrow>
          (case exec_all sampleBuffer hand_off_body
                  (\<lparr>new_sample_buffer = fst new, new_pixel_buffer = snd new,
                    av_img = img, old_data_retainer = None\<rparr>, w1) of
             Inl e \<Rightarrow> Inl e
           | Inr (l, w2) \<Rightarrow> Inr (False, leave_block new w2)))"

section \<open>Starting, stopping and delivery (screencapture.mm)\<close>

type_synonym 'c session = "(CMSampleBuffer, 'c world) ApolloScreenCapture"

definition dispatch_semaphore_signal ::
  "nat \<Rightarrow> ('f, 'w) ApolloScreenCapture \<Rightarrow> ('f, 'w) ApolloScreenCapture" where
  "dispatch_semaphore_signal k self =
     (if k < length (semaphores self)
      then self\<lparr>semaphores := (semaphores self)[k := semaphores self ! k + 1]\<rparr>
      else self)"

text \<open>
  \<open>capture:\<close> stores the block, creates the semaphore the caller will wait on, asks the
  stream to start and returns the semaphore. A message to a nil stream does nothing.
\<close>

definition ApolloScreenCapture_capture ::
  "('f, 'w) SCFrameCallbackBlock \<Rightarrow> ('f, 'w) ApolloScreenCapture \<Rightarrow>
   nat \<times> ('f, 'w) ApolloScreenCapture" where
  "ApolloScreenCapture_capture cb self =
     (let k = length (semaphores self);
          self1 = self\<lparr>frameCallback := Some cb,
                       semaphores := semaphores self @ [0],
                       captureSemaphore := Some k\<rparr>;
          self2 = (case stream self1 of
                     None \<Rightarrow> self1
                   | Some st \<Rightarrow>
                       self1\<lparr>stream := Some (st\<lparr>start_requests := start_requests st + 1\<rparr>)\<rparr>)
      in (k, self2))"

text \<open>
  The completion handler of \<open>startCaptureWithCompletionHandler:\<close>; the argument tells
  whether the stream reported an error.
\<close>

definition startCapture_completed ::
  "bool \<Rightarrow> ('f, 'w) ApolloScreenCapture \<Rightarrow> fault + ('f, 'w) ApolloScreenCapture" where
  "startCapture_completed err self =
     (if err then
        (case captureSemaphore self of
           None \<Rightarrow> Inl NullDeref
         | Some k \<Rightarrow> Inr (dispatch_semaphore_signal k self))
      else Inr (self\<lparr>isCapturing := True\<rparr>))"

text \<open>\<open>stopCapture\<close>: nothing unless \<open>isCapturing\<close>; else the stream is asked to stop.\<close>

definition stopCapture :: "('f, 'w) ApolloScreenCapture \<Rightarrow> ('f, 'w) ApolloScreenCapture" where
  "stopCapture self =
     (if \<not> isCapturing self then self
      else (case stream self of
              None \<Rightarrow> self
            | Some st \<Rightarrow> self\<lparr>stream := Some (st\<lparr>stop_requests := stop_requests st + 1\<rparr>)\<rparr>))"

text \<open>
  The completion handler of \<open>stopCaptureWithCompletionHandler:\<close>; an error is only
  logged.
\<close>

definition stopCapture_completed ::
  "bool \<Rightarrow> ('f, 'w) ApolloScreenCapture \<Rightarrow> ('f, 'w) ApolloScreenCapture" where
  "stopCapture_completed err self =
     (let self1 = self\<lparr>isCapturing := False\<rparr> in
      case captureSemaphore self1 of
        None \<Rightarrow> self1
      | Some k \<Rightarrow> dispatch_semaphore_signal k self1)"

datatype SCStreamOutputType = SCStreamOutputTypeScreen | SCStreamOutputTypeAudio

text \<open>\<open>stream:didOutputSampleBuffer:ofType:\<close>.\<close>

definition stream_didOutputSampleBuffer ::
  "'f \<Rightarrow> SCStreamOutputType \<Rightarrow> ('f, 'w) ApolloScreenCapture \<times> 'w \<Rightarrow>
   fault + ('f, 'w) ApolloScreenCapture \<times> 'w" where
  "stream_didOutputSampleBuffer sampleBuffer ty st =
     (case st of (self, w) \<Rightarrow>
        if ty \<noteq> SCStreamOutputTypeScreen then Inr (self, w)
        else
          (case frameCallback self of
             None \<Rightarrow> Inr (self, w)
           | Some cb \<Rightarrow>
               (case cb sampleBuffer w of
                  Inl e \<Rightarrow> Inl e
                | Inr (continueCapture, w') \<Rightarrow>
                    if \<not> continueCapture then Inr (stopCapture self, w')
                    else Inr (self, w'))))"

text \<open>\<open>stream:didStopWithError:\<close>.\<close>

definition stream_didStopWithError ::
  "('f, 'w) ApolloScreenCapture \<Rightarrow> ('f, 'w) ApolloScreenCapture" where
  "stream_didStopWithError self =
     (let self1 = self\<lparr>isCapturing := False\<rparr> in
      case captureSemaphore self1 of
        None \<Rightarrow> self1
      | Some k \<Rightarrow> dispatch_semaphore_signal k self1)"

text \<open>
  What happens to the session while a caller waits: ScreenCaptureKit runs one of the two
  completion handlers, delivers a sample or reports that the stream stopped with an
  error; or another thread calls \<open>stopCapture\<close> (the destructor of \<open>sc_display_t\<close>
  does).
\<close>

datatype 'f event =
  Start_completed bool
  | Stop_completed bool
  | Output_sample 'f SCStreamOutputType
  | Stream_stopped_with_error
  | Stop_capture_called

fun deliver ::
  "'f event \<Rightarrow> ('f, 'w) ApolloScreenCapture \<times> 'w \<Rightarrow> fault + ('f, 'w) ApolloScreenCapture \<times> 'w"
  where
  "deliver (Start_completed err) (self, w) =
     (case startCapture_completed err self of Inl e \<Rightarrow> Inl e | Inr self' \<Rightarrow> Inr (self', w))"
| "deliver (Stop_completed err) (self, w) = Inr (stopCapture_completed err self, w)"
| "deliver (Output_sample f ty) (self, w) = stream_didOutputSampleBuffer f ty (self, w)"
| "deliver Stream_stopped_with_error (self, w) = Inr (stream_didStopWithError self, w)"
| "deliver Stop_capture_called (self, w) = Inr (stopCapture self, w)"

text \<open>
  A call that blocks either returns, or stays blocked for ever, or the process has
  faulted meanwhile.
\<close>

datatype 'a outcome = Returns 'a | Blocked | Faulted fault

text \<open>
  \<open>dispatch_semaphore_wait(signal, DISPATCH_TIME_FOREVER)\<close>: the caller sleeps while the
  events of the schedule happen, and wakes at the first moment the semaphore's counter is
  positive, taking one unit. When the schedule ends before that, the caller stays blocked.
\<close>

fun dispatch_semaphore_wait ::
  "nat \<Rightarrow> 'f event list \<Rightarrow> ('f, 'w) ApolloScreenCapture \<times> 'w \<Rightarrow>
   (('f, 'w) ApolloScreenCapture \<times> 'w) outcome" where
  "dispatch_semaphore_wait k [] (self, w) =
     (if k < length (semaphores self) \<and> 0 < semaphores self ! k
      then Returns (self\<lparr>semaphores := (semaphores self)[k := semaphores self ! k - 1]\<rparr>, w)
      else Blocked)"
| "dispatch_semaphore_wait k (e # es) (self, w) =
     (if k < length (semaphores self) \<and> 0 < semaphores self ! k
      then Returns (self\<lparr>semaphores := (semaphores self)[k := semaphores self ! k - 1]\<rparr>, w)
      else (case deliver e (self, w) of
              Inl x \<Rightarrow> Faulted x
            | Inr st \<Rightarrow> dispatch_semaphore_wait k es st))"

section \<open>The display (display.mm, \<open>sc_display_t\<close>)\<close>

text \<open>
  Modelled from the spec: \<open>capture_e\<close> is declared in \<open>src/platform/common.h\<close>, which
  is not among the sources at hand; the spec (section 4.1) gives \<open>capture\<close> the results
  \<open>ok\<close>, \<open>error\<close> and \<open>timeout\<close>.
\<close>

datatype capture_e = ok | error | timeout

record 'c sc_display_t =
  sc_capture :: "'c session option"
  display_id :: "32 word"
  disp_width :: int
  disp_height :: int
  env_width :: int
  env_height :: int

text \<open>
  \<open>sc_display_t::capture\<close>. The events are what happens while the caller waits. With
  a nil \<open>sc_capture\<close> the semaphore is nil, and waiting on it is a fault.
\<close>

definition capture ::
  "'c push_captured_image_cb_t \<Rightarrow> 'c pull_free_image_cb_t \<Rightarrow> CMSampleBuffer event list \<Rightarrow>
   'c sc_display_t \<times> 'c world \<Rightarrow> (capture_e \<times> 'c sc_display_t \<times> 'c world) outcome" where
  "capture push_captured_image_cb pull_free_image_cb events st =
     (case st of (this, w) \<Rightarrow>
        (case sc_capture this of
           None \<Rightarrow> Faulted NullDeref
         | Some sc \<Rightarrow>
             (case ApolloScreenCapture_capture
                     (capture_block push_captured_image_cb pull_free_image_cb) sc of
                (signal, sc1) \<Rightarrow>
                  (case dispatch_semaphore_wait signal events (sc1, w) of
                     Returns (sc2, w') \<Rightarrow> Returns (ok, this\<lparr>sc_capture := Some sc2\<rparr>, w')
                   | Blocked \<Rightarrow> Blocked
                   | Faulted e \<Rightarrow> Faulted e))))"

text \<open>
  \<open>sc_display_t::dummy_img\<close>; \<open>allowed\<close> is the answer of
  \<open>platf::is_screen_capture_allowed()\<close>.
\<close>

definition dummy_img ::
  "bool \<Rightarrow> nat \<Rightarrow> CMSampleBuffer event list \<Rightarrow>
   'c sc_display_t \<times> 'c world \<Rightarrow> (int \<times> 'c sc_display_t \<times> 'c world) outcome" where
  "dummy_img allowed img events st =
     (case st of (this, w) \<Rightarrow>
        if \<not> allowed then Returns (1, this, w)
        else
          (case sc_capture this of
             None \<Rightarrow> Faulted NullDeref
           | Some sc \<Rightarrow>
               (case ApolloScreenCapture_capture (dummy_img_block img) sc of
                  (signal, sc1) \<Rightarrow>
                    (case dispatch_semaphore_wait signal events (sc1, w) of
                       Returns (sc2, w') \<Rightarrow> Returns (0, this\<lparr>sc_capture := Some sc2\<rparr>, w')
                     | Blocked \<Rightarrow> Blocked
                     | Faulted e \<Rightarrow> Faulted e))))"

section \<open>Choosing and setting up the display (display.mm, screencapture.mm)\<close>

text \<open>
  \<open>std::atoi\<close> of the C library: white space is skipped, an optional sign is read, then
  decimal digits up to the first other character. A value that no \<open>int\<close> holds is
  undefined.
\<close>

definition isspace :: "char \<Rightarrow> bool" where
  "isspace c = (of_char c \<in> {32, 9, 10, 11, 12, 13 :: nat})"

definition isdigit :: "char \<Rightarrow> bool" where
  "isdigit c = (48 \<le> (of_char c :: nat) \<and> (of_char c :: nat) \<le> 57)"

fun atoi_digits :: "int \<Rightarrow> string \<Rightarrow> int" where
  "atoi_digits acc [] = acc"
| "atoi_digits acc (c # cs) =
     (if isdigit c then atoi_digits (acc * 10 + (of_char c - 48)) cs else acc)"

definition atoi :: "string \<Rightarrow> fault + int" where
  "atoi str =
     (let v = (case dropWhile isspace str of
                 [] \<Rightarrow> 0
               | c # cs \<Rightarrow>
                   if c = CHR ''-'' then - atoi_digits 0 cs
                   else if c = CHR ''+'' then atoi_digits 0 cs
                   else atoi_digits 0 (c # cs))
      in if - (2 ^ 31) \<le> v \<and> v < 2 ^ 31 then Inr v else Inl OutOfRange)"

text \<open>
  \<open>mem_type_e\<close> is declared in \<open>src/platform/common.h\<close>, not among the sources at hand;
  \<open>other_mem n\<close> stands for the enumerators display.mm does not name.
\<close>

datatype mem_type_e = system | videotoolbox | other_mem nat

text \<open>
  What the operating system answers during setup: \<open>CGMainDisplayID\<close>, the identifiers
  that \<open>displayNames\<close> lists (none when \<open>CGGetActiveDisplayList\<close> fails), the pixel size
  of a display's mode, whether fetching the shareable content reported an error, the
  displays of the shareable content, whether HDR is detected on a display (macOS 14 and
  \<open>isHDRSupported\<close>), whether \<open>addStreamOutput\<close> reported an error, and whether the five
  seconds of the setup ran out.
\<close>

record setup_env =
  main_display :: "32 word"
  active_displays :: "32 word list"
  mode_size :: "32 word \<Rightarrow> int \<times> int"
  content_error :: bool
  content_displays :: "32 word list"
  hdr_detected :: "32 word \<Rightarrow> bool"
  add_output_error :: bool
  setup_timed_out :: bool

text \<open>
  \<open>initWithDisplay:frameRate:\<close> answers nil on every failure and logs the reason; the
  model keeps the reason.
\<close>

datatype setup_failure = Timed_out | Content_error | No_display_found | Add_output_error

text \<open>
  screencapture.mm lines 72 to 83: the display of the content with the wanted identifier,
  else the first display of the content.
\<close>

definition targetDisplay :: "32 word \<Rightarrow> 32 word list \<Rightarrow> 32 word option" where
  "targetDisplay wanted displays =
     (case find (\<lambda>d. d = wanted) displays of
        Some d \<Rightarrow> Some d
      | None \<Rightarrow> (case displays of [] \<Rightarrow> None | d # _ \<Rightarrow> Some d))"

definition initWithDisplay ::
  "32 word \<Rightarrow> int \<Rightarrow> setup_env \<Rightarrow> setup_failure + ('f, 'w) ApolloScreenCapture" where
  "initWithDisplay did rate env =
     (let self = \<lparr>displayID = did,
                  frameWidth = fst (mode_size env did),
                  frameHeight = snd (mode_size env did),
                  frameRate = rate,
                  pixelFormat = kCVPixelFormatType_32BGRA,
                  captureHDR = False,
                  stream = None, contentFilter = None, streamConfig = None,
                  frameCallback = None, captureSemaphore = None,
                  isCapturing = False, semaphores = []\<rparr>
      in if setup_timed_out env then Inl Timed_out
         else if content_error env then Inl Content_error
         else
           (case targetDisplay did (content_displays env) of
              None \<Rightarrow> Inl No_display_found
            | Some target \<Rightarrow>
                (let self1 = self\<lparr>displayID := target\<rparr>;
                     self2 = self1\<lparr>contentFilter := Some target,
                                   streamConfig :=
                                     Some \<lparr>cfg_width = frameWidth self1,
                                           cfg_height = frameHeight self1,
                                           cfg_frameRate = frameRate self1,
                                           cfg_pixelFormat = pixelFormat self1,
                                           cfg_queueDepth = 5,
                                           cfg_showsCursor = True\<rparr>\<rparr>;
                     self3 = (if hdr_detected env (displayID self2)
                              then self2\<lparr>captureHDR := True\<rparr> else self2);
                     self4 = self3\<lparr>stream := Some \<lparr>start_requests = 0, stop_requests = 0,
                                                    update_requests = 0\<rparr>\<rparr>
                 in if add_output_error env then Inl Add_output_error else Inr self4)))"

text \<open>
  display.mm lines 156 to 167: the main display, unless the name is not empty and its
  \<open>atoi\<close>, converted to \<open>unsigned\<close>, equals the identifier of a listed display.
\<close>

fun choose_display_id :: "string \<Rightarrow> 32 word list \<Rightarrow> 32 word \<Rightarrow> fault + 32 word" where
  "choose_display_id display_name [] chosen = Inr chosen"
| "choose_display_id display_name (d # ds) chosen =
     (if display_name \<noteq> [] then
        (case atoi display_name of
           Inl e \<Rightarrow> Inl e
         | Inr v \<Rightarrow>
             choose_display_id display_name ds (if word_of_int v = d then d else chosen))
      else choose_display_id display_name ds chosen)"

text \<open>
  \<open>platf::display\<close> with ScreenCaptureKit; \<open>None\<close> is the null pointer. Of
  \<open>video::config_t\<close> only \<open>framerate\<close> is read.
\<close>

definition display ::
  "mem_type_e \<Rightarrow> string \<Rightarrow> int \<Rightarrow> setup_env \<Rightarrow> fault + 'c sc_display_t option" where
  "display hwdevice_type display_name framerate env =
     (if hwdevice_type \<noteq> system \<and> hwdevice_type \<noteq> videotoolbox then Inr None
      else
        (case choose_display_id display_name (active_displays env) (main_display env) of
           Inl e \<Rightarrow> Inl e
         | Inr did \<Rightarrow>
             (case initWithDisplay did framerate env of
                Inl _ \<Rightarrow> Inr None
              | Inr sc \<Rightarrow>
                  Inr (Some \<lparr>sc_capture = Some sc, display_id = did,
                             disp_width = frameWidth sc, disp_height = frameHeight sc,
                             env_width = frameWidth sc, env_height = frameHeight sc\<rparr>))))"

section \<open>Binding a frame to the encoder (nv12\_zero\_device.cpp)\<close>

text \<open>
  The buffers of FFmpeg. An \<open>AVBufferRef\<close> is an index into \<open>av_buffers\<close>; a buffer has
  its data pointer, its reference count and its free callback, which is
  \<open>platf::free_buffer\<close> for the buffers \<open>convert\<close> creates.
\<close>

datatype free_fn = Free_buffer | Av_buffer_default_free

record av_buffer =
  ab_data :: handle
  ab_refcount :: nat
  ab_free :: free_fn

text \<open>The state \<open>convert\<close> works on: the C++ side and the buffers of FFmpeg.\<close>

record 'c encoder_world =
  cxx :: "'c world"
  av_buffers :: "av_buffer list"

text \<open>nv12\_zero\_device.cpp, \<open>free_buffer\<close>: \<open>CVPixelBufferRelease\<close> of the data.\<close>

definition free_buffer :: "handle \<Rightarrow> 'c world \<Rightarrow> 'c world" where
  "free_buffer d w = CFRelease d w"

text \<open>
  \<open>av_buffer_unref(&frame->buf[0])\<close>: nothing for a null reference; else the reference
  is cleared and the buffer loses one reference, the last of which calls the free
  callback.
\<close>

definition av_buffer_unref :: "AVFrame \<Rightarrow> 'c encoder_world \<Rightarrow> AVFrame \<times> 'c encoder_world" where
  "av_buffer_unref fr e =
     (case frame_buf0 fr of
        None \<Rightarrow> (fr, e)
      | Some r \<Rightarrow>
          if r < length (av_buffers e) then
            (let b = av_buffers e ! r in
             if ab_refcount b \<le> 1 then
               (fr\<lparr>frame_buf0 := None\<rparr>,
                e\<lparr>av_buffers := (av_buffers e)[r := b\<lparr>ab_refcount := 0\<rparr>],
                  cxx := (case ab_free b of
                            Free_buffer \<Rightarrow> free_buffer (ab_data b) (cxx e)
                          | Av_buffer_default_free \<Rightarrow> cxx e)\<rparr>)
             else
               (fr\<lparr>frame_buf0 := None\<rparr>,
                e\<lparr>av_buffers := (av_buffers e)[r := b\<lparr>ab_refcount := ab_refcount b - 1\<rparr>]\<rparr>))
          else (fr\<lparr>frame_buf0 := None\<rparr>, e))"

text \<open>\<open>av_buffer_create(data, 0, free_buffer, nullptr, 0)\<close>.\<close>

definition av_buffer_create :: "handle \<Rightarrow> 'c encoder_world \<Rightarrow> nat \<times> 'c encoder_world" where
  "av_buffer_create d e =
     (length (av_buffers e),
      e\<lparr>av_buffers := av_buffers e @ [\<lparr>ab_data = d, ab_refcount = 1, ab_free = Free_buffer\<rparr>]\<rparr>)"

text \<open>
  \<open>nv12_zero_device::convert\<close>; the image is passed by reference. The test of the pixel
  wrapper and of its handle comes first; only then is \<open>frame\<close> dereferenced.
\<close>

definition convert ::
  "nat \<Rightarrow> 's nv12_zero_device \<Rightarrow> 'c encoder_world \<Rightarrow>
   fault + (int \<times> 's nv12_zero_device \<times> 'c encoder_world)" where
  "convert img this e =
     (case images (cxx e) img of
        None \<Rightarrow> Inl Dangling
      | Some av \<Rightarrow>
          (case pixel_buffer av of
             None \<Rightarrow> Inr (- 1, this, e)
           | Some p \<Rightarrow>
               if \<not> p < length (heap (cxx e) Pixel) then Inl Dangling
               else
                 (case buf (heap (cxx e) Pixel ! p) of
                    None \<Rightarrow> Inr (- 1, this, e)
                  | Some h \<Rightarrow>
                      (case frame this of
                         None \<Rightarrow> Inl NullDeref
                       | Some fr \<Rightarrow>
                           (case av_buffer_unref fr e of
                              (fr1, e1) \<Rightarrow>
                                (let e2 = e1\<lparr>cxx := CFRetain h (cxx e1)\<rparr> in
                                 case av_buffer_create h e2 of
                                   (r, e3) \<Rightarrow>
                                     Inr (0,
                                          this\<lparr>frame := Some (fr1\<lparr>frame_buf0 := Some r,
                                                                  frame_data3 := Some h\<rparr>)\<rparr>,
                                          e3)))))))"

section \<open>Ownership and example inputs\<close>

text \<open>
  \<open>owned k p n w\<close>: the \<open>shared_ptr\<close> \<open>p\<close> to a wrapper of kind \<open>k\<close> is null, or its
  wrapper is in the heap with at least \<open>n\<close> owners. With \<open>n = 1\<close> the wrapper is alive.
\<close>

definition owned :: "kind \<Rightarrow> nat option \<Rightarrow> nat \<Rightarrow> 'c world \<Rightarrow> bool" where
  "owned k p n w =
     (case p of None \<Rightarrow> True | Some x \<Rightarrow> x < length (heap w k) \<and> n \<le> use_count (heap w k ! x))"

text \<open>
  Inputs for the examples: a consumer that records the images pushed to it, a world with
  one freshly allocated image at address 0, three samples (the last one carries no image
  buffer, and CoreVideo answers 0 for its dimensions), and an operating system with two
  displays.
\<close>

definition pull_image :: "nat \<Rightarrow> (nat list) pull_free_image_cb_t" where
  "pull_image i c = ((True, Some i), c)"

definition pull_fails :: "(nat list) pull_free_image_cb_t" where
  "pull_fails c = ((False, None), c)"

definition push_accepts :: "(nat list) push_captured_image_cb_t" where
  "push_accepts i captured c = (True, c @ [i])"

definition push_rejects :: "(nat list) push_captured_image_cb_t" where
  "push_rejects i captured c = (False, c)"

definition fresh_world :: "(nat list) world" where
  "fresh_world =
     \<lparr>native_rc = (\<lambda>h. 0), heap = (\<lambda>k. []), images = [0 \<mapsto> alloc_img], consumer = []\<rparr>"

definition first_sample :: CMSampleBuffer where
  "first_sample =
     \<lparr>sample_ref = 10, image_buffer = Some 20, px_width = 4, px_height = 2,
      px_bytes_per_row = 16, px_base_address = 4096\<rparr>"

definition second_sample :: CMSampleBuffer where
  "second_sample =
     \<lparr>sample_ref = 11, image_buffer = Some 21, px_width = 4, px_height = 2,
      px_bytes_per_row = 16, px_base_address = 8192\<rparr>"

definition blank_sample :: CMSampleBuffer where
  "blank_sample =
     \<lparr>sample_ref = 12, image_buffer = None, px_width = 0, px_height = 0,
      px_bytes_per_row = 0, px_base_address = 0\<rparr>"

text \<open>The world once \<open>first_sample\<close> has been handed to the image at address 0.\<close>

definition used_world :: "(nat list) world" where
  "used_world =
     \<lparr>native_rc = (\<lambda>h. if h = 10 \<or> h = 20 then 1 else 0),
      heap = (\<lambda>k. case k of Sample \<Rightarrow> [\<lparr>buf = Some 10, use_count = 1\<rparr>]
                           | Pixel \<Rightarrow> [\<lparr>buf = Some 20, use_count = 1\<rparr>]),
      images = [0 \<mapsto> \<lparr>sample_buffer = Some 0, pixel_buffer = Some 0, data = 4096,
                        width = 4, height = 2, row_pitch = 16, pixel_pitch = 4\<rparr>],
      consumer = []\<rparr>"

definition two_displays :: setup_env where
  "two_displays =
     \<lparr>main_display = 1, active_displays = [1, 2], mode_size = (\<lambda>d. (1920, 1080)),
      content_error = False, content_displays = [1, 2], hdr_detected = (\<lambda>d. False),
      add_output_error = False, setup_timed_out = False\<rparr>"

text \<open>The session \<open>initWithDisplay:frameRate:\<close> builds for display 2 of \<open>two_displays\<close>.\<close>

definition ready_session :: "(nat list) session" where
  "ready_session =
     \<lparr>displayID = 2, frameWidth = 1920, frameHeight = 1080, frameRate = 60,
      pixelFormat = kCVPixelFormatType_32BGRA, captureHDR = False,
      stream = Some \<lparr>start_requests = 0, stop_requests = 0, update_requests = 0\<rparr>,
      contentFilter = Some 2,
      streamConfig = Some \<lparr>cfg_width = 1920, cfg_height = 1080, cfg_frameRate = 60,
                            cfg_pixelFormat = kCVPixelFormatType_32BGRA,
                            cfg_queueDepth = 5, cfg_showsCursor = True\<rparr>,
      frameCallback = None, captureSemaphore = None, isCapturing = False,
      semaphores = []\<rparr>"

definition ready_display :: "(nat list) sc_display_t" where
  "ready_display =
     \<lparr>sc_capture = Some ready_session, display_id = 2,
      disp_width = 1920, disp_height = 1080, env_width = 1920, env_height = 1080\<rparr>"

section \<open>Facts about the wrappers\<close>

lemma images_CFRetain [simp]: "images (CFRetain h w) = images w"
  by (simp add: CFRetain_def)

lemma images_CFRelease [simp]: "images (CFRelease h w) = images w"
  by (simp add: CFRelease_def)

lemma consumer_CFRetain [simp]: "consumer (CFRetain h w) = consumer w"
  by (simp add: CFRetain_def)

lemma consumer_CFRelease [simp]: "consumer (CFRelease h w) = consumer w"
  by (simp add: CFRelease_def)

lemma images_sp_copy [simp]: "images (sp_copy k p w) = images w"
  by (simp add: sp_copy_def split: option.splits)

lemma images_sp_release [simp]: "images (sp_release k p w) = images w"
  by (simp add: sp_release_def Let_def split: option.splits)

lemma consumer_sp_copy [simp]: "consumer (sp_copy k p w) = consumer w"
  by (simp add: sp_copy_def split: option.splits)

lemma consumer_sp_release [simp]: "consumer (sp_release k p w) = consumer w"
  by (simp add: sp_release_def Let_def split: option.splits)

lemma native_rc_sp_copy [simp]: "native_rc (sp_copy k p w) = native_rc w"
  by (simp add: sp_copy_def split: option.splits)

lemma images_make_shared [simp]: "images (snd (make_shared k b w)) = images w"
  by (simp add: make_shared_def Let_def split: option.splits)

lemma consumer_make_shared [simp]: "consumer (snd (make_shared k b w)) = consumer w"
  by (simp add: make_shared_def Let_def split: option.splits)

lemma images_wrap_sample [simp]: "images (snd (wrap_sample f w)) = images w"
  by (simp add: wrap_sample_def split: prod.splits)
     (metis images_make_shared snd_conv)

lemma consumer_wrap_sample [simp]: "consumer (snd (wrap_sample f w)) = consumer w"
  by (simp add: wrap_sample_def split: prod.splits)
     (metis consumer_make_shared snd_conv)

lemma images_leave_block [simp]: "images (leave_block new w) = images w"
  by (simp add: leave_block_def)

lemma consumer_leave_block [simp]: "consumer (leave_block new w) = consumer w"
  by (simp add: leave_block_def)

lemma owned_images [simp]: "owned k p n (w\<lparr>images := m\<rparr>) = owned k p n w"
  by (simp add: owned_def split: option.splits)

lemma owned_sp_copy_same: "owned k p n w \<Longrightarrow> owned k p (Suc n) (sp_copy k p w)"
  by (auto simp: owned_def sp_copy_def split: option.splits)

lemma owned_sp_copy_other: "owned k p n w \<Longrightarrow> owned k p n (sp_copy k' q w)"
  by (auto simp: owned_def sp_copy_def nth_list_update split: option.splits)

lemma native_rc_sp_release: "owned k p 2 w \<Longrightarrow> native_rc (sp_release k p w) = native_rc w"
  by (auto simp: owned_def sp_release_def Let_def split: option.splits)

lemma owned_sp_release_same:
  "owned k p (Suc (Suc n)) w \<Longrightarrow> owned k p (Suc n) (sp_release k p w)"
  by (auto simp: owned_def sp_release_def Let_def split: option.splits)

lemma owned_sp_release_other:
  "k \<noteq> k' \<Longrightarrow> owned k p n w \<Longrightarrow> owned k p n (sp_release k' q w)"
  by (auto simp: owned_def sp_release_def Let_def CFRelease_def split: option.splits)

lemma owned_mono: "owned k p n w \<Longrightarrow> m \<le> n \<Longrightarrow> owned k p m w"
  by (auto simp: owned_def split: option.splits)

section \<open>The installed image\<close>

lemma hand_off_installs:
  assumes "exec_all f hand_off_body (l, w) = Inr (l', w')"
  shows "\<exists>img. images w (av_img l) = Some img
      \<and> images w' = (images w)(av_img l \<mapsto>
           \<lparr>sample_buffer = Some (new_sample_buffer l),
            pixel_buffer = Some (new_pixel_buffer l),
            data = px_base_address f,
            width = int_of_size_t (px_width f),
            height = int_of_size_t (px_height f),
            row_pitch = int_of_size_t (px_bytes_per_row f),
            pixel_pitch = int_of_size_t (px_bytes_per_row f) sdiv int_of_size_t (px_width f)\<rparr>)
      \<and> int_of_size_t (px_width f) \<noteq> 0
      \<and> consumer w' = consumer w \<and> l' = l\<lparr>old_data_retainer := None\<rparr>"
  using assms
  by (auto simp: hand_off_body_def Let_def split: option.splits if_splits)

lemma sdiv_nonneg: "0 \<le> a \<Longrightarrow> 0 < b \<Longrightarrow> (a::int) sdiv b = a div b"
  by (cases "a = 0") (simp_all add: signed_divide_int_def)

text \<open>
  C2. Whenever a block completes the hand-off of a delivered sample (the probe block of
  \<open>dummy_img\<close>; the block of \<open>capture\<close> once \<open>pull_free_image_cb\<close> has supplied an
  image), the image holds the width, the height and the bytes per row that the new
  native pixel buffer reports, cast to \<open>int\<close>, and its \<open>pixel_pitch\<close> is
  \<open>row_pitch / width\<close> in the integer division of C++, which for a non-negative
  \<open>row_pitch\<close> and a positive \<open>width\<close> is the quotient rounded down.
\<close>

theorem handed_off_image_pixel_pitch:
  "(dummy_img_block i f w = Inr (r, w') \<longrightarrow>
      (\<exists>img. images w' i = Some img
         \<and> width img = int_of_size_t (px_width f)
         \<and> height img = int_of_size_t (px_height f)
         \<and> row_pitch img = int_of_size_t (px_bytes_per_row f)
         \<and> width img \<noteq> 0
         \<and> pixel_pitch img = row_pitch img sdiv width img
         \<and> (0 \<le> row_pitch img \<and> 0 < width img \<longrightarrow>
              pixel_pitch img = row_pitch img div width img)))
   \<and> (pull (consumer w) = ((True, io), c1)
        \<and> capture_block push pull f w = Inr (r, w') \<longrightarrow>
      (\<exists>j img. io = Some j \<and> images w' j = Some img
         \<and> width img = int_of_size_t (px_width f)
         \<and> height img = int_of_size_t (px_height f)
         \<and> row_pitch img = int_of_size_t (px_bytes_per_row f)
         \<and> width img \<noteq> 0
         \<and> pixel_pitch img = row_pitch img sdiv width img
         \<and> (0 \<le> row_pitch img \<and> 0 < width img \<longrightarrow>
              pixel_pitch img = row_pitch img div width img)))"
proof (intro conjI impI)
  assume run: "dummy_img_block i f w = Inr (r, w')"
  obtain new w1 where wrap: "wrap_sample f w = (new, w1)"
    by (cases "wrap_sample f w")
  from run wrap obtain l' w2 where
    ho: "exec_all f hand_off_body
           (\<lparr>new_sample_buffer = fst new, new_pixel_buffer = snd new,
             av_img = i, old_data_retainer = None\<rparr>, w1) = Inr (l', w2)"
    and w': "w' = leave_block new w2"
    by (auto simp: dummy_img_block_def split: sum.splits)
  from hand_off_installs [OF ho] w'
  show "\<exists>img. images w' i = Some img
         \<and> width img = int_of_size_t (px_width f)
         \<and> height img = int_of_size_t (px_height f)
         \<and> row_pitch img = int_of_size_t (px_bytes_per_row f)
         \<and> width img \<noteq> 0
         \<and> pixel_pitch img = row_pitch img sdiv width img
         \<and> (0 \<le> row_pitch img \<and> 0 < width img \<longrightarrow>
              pixel_pitch img = row_pitch img div width img)"
    by (auto simp: sdiv_nonneg)
next
  assume a: "pull (consumer w) = ((True, io), c1) \<and> capture_block push pull f w = Inr (r, w')"
  obtain new w1 where wrap: "wrap_sample f w = (new, w1)"
    by (cases "wrap_sample f w")
  have c: "consumer w1 = consumer w"
    using consumer_wrap_sample [of f w] wrap by simp
  from a wrap c obtain j l' w3 c2 where
    io: "io = Some j"
    and ho: "exec_all f hand_off_body
           (\<lparr>new_sample_buffer = fst new, new_pixel_buffer = snd new,
             av_img = j, old_data_retainer = None\<rparr>, w1\<lparr>consumer := c1\<rparr>) = Inr (l', w3)"
    and w': "w' = leave_block new (w3\<lparr>consumer := c2\<rparr>)"
    by (auto simp: capture_block_def Let_def split: sum.splits option.splits prod.splits if_splits)
  from hand_off_installs [OF ho] w' io
  show "\<exists>j img. io = Some j \<and> images w' j = Some img
         \<and> width img = int_of_size_t (px_width f)
         \<and> height img = int_of_size_t (px_height f)
         \<and> row_pitch img = int_of_size_t (px_bytes_per_row f)
         \<and> width img \<noteq> 0
         \<and> pixel_pitch img = row_pitch img sdiv width img
         \<and> (0 \<le> row_pitch img \<and> 0 < width img \<longrightarrow>
              pixel_pitch img = row_pitch img div width img)"
    by (auto simp: sdiv_nonneg)
qed

lemma first_hand_off: "dummy_img_block 0 first_sample fresh_world = Inr (False, used_world)"
  by (simp add: dummy_img_block_def wrap_sample_def make_shared_def CFRetain_def CFRelease_def
      fresh_world_def first_sample_def hand_off_body_def alloc_img_def Let_def
      int_of_size_t_def sp_copy_def sp_release_def leave_block_def used_world_def
      signed_divide_int_def fun_eq_iff split: kind.splits)

lemma first_dummy_run:
  "\<exists>w'. dummy_img_block 0 first_sample fresh_world = Inr (False, w')"
  using first_hand_off by blast

lemma first_capture_accepted:
  "\<exists>w'. capture_block push_accepts (pull_image 0) first_sample fresh_world = Inr (True, w')"
  by (simp add: capture_block_def wrap_sample_def make_shared_def CFRetain_def
      fresh_world_def first_sample_def hand_off_body_def alloc_img_def Let_def
      int_of_size_t_def sp_copy_def sp_release_def pull_image_def push_accepts_def)

theorem handed_off_image_pixel_pitch_witness:
  "(\<exists>w' img. dummy_img_block 0 first_sample fresh_world = Inr (False, w')
      \<and> images w' 0 = Some img
      \<and> width img = 4 \<and> height img = 2 \<and> row_pitch img = 16 \<and> pixel_pitch img = 4)
   \<and> (\<exists>w' img. capture_block push_accepts (pull_image 0) first_sample fresh_world
                  = Inr (True, w')
      \<and> images w' 0 = Some img
      \<and> width img = 4 \<and> height img = 2 \<and> row_pitch img = 16 \<and> pixel_pitch img = 4)"
proof -
  obtain w1 where run: "dummy_img_block 0 first_sample fresh_world = Inr (False, w1)"
    using first_dummy_run by blast
  from handed_off_image_pixel_pitch [THEN conjunct1, rule_format, OF run]
  obtain img1 where "images w1 0 = Some img1"
    and "width img1 = int_of_size_t (px_width first_sample)"
    and "height img1 = int_of_size_t (px_height first_sample)"
    and "row_pitch img1 = int_of_size_t (px_bytes_per_row first_sample)"
    and "pixel_pitch img1 = row_pitch img1 sdiv width img1"
    by blast
  then have 1: "images w1 0 = Some img1 \<and> width img1 = 4 \<and> height img1 = 2
      \<and> row_pitch img1 = 16 \<and> pixel_pitch img1 = 4"
    by (simp add: first_sample_def int_of_size_t_def signed_divide_int_def)
  obtain w2 where
    cap: "capture_block push_accepts (pull_image 0) first_sample fresh_world = Inr (True, w2)"
    using first_capture_accepted by blast
  have pulled: "pull_image 0 (consumer fresh_world) = ((True, Some 0), [])"
    by (simp add: pull_image_def fresh_world_def)
  from handed_off_image_pixel_pitch [THEN conjunct2, rule_format, OF conjI, OF pulled cap]
  obtain img2 where "images w2 0 = Some img2"
    and "width img2 = int_of_size_t (px_width first_sample)"
    and "height img2 = int_of_size_t (px_height first_sample)"
    and "row_pitch img2 = int_of_size_t (px_bytes_per_row first_sample)"
    and "pixel_pitch img2 = row_pitch img2 sdiv width img2"
    by blast
  then have 2: "images w2 0 = Some img2 \<and> width img2 = 4 \<and> height img2 = 2
      \<and> row_pitch img2 = 16 \<and> pixel_pitch img2 = 4"
    by (simp add: first_sample_def int_of_size_t_def signed_divide_int_def)
  from run 1 cap 2 show ?thesis
    by blast
qed

text \<open>
  C9. The hand-off does not check the dimensions it reads. For a delivered sample without
  an image buffer, whose width CoreVideo reports as 0, both blocks reach
  \<open>row_pitch / width\<close> with \<open>width = 0\<close>: the division the claim calls well-defined is a
  division by zero.
\<close>

theorem blank_sample_divides_by_zero:
  "dummy_img_block 0 blank_sample fresh_world = Inl DivByZero
   \<and> capture_block push_accepts (pull_image 0) blank_sample fresh_world = Inl DivByZero"
  by (simp add: dummy_img_block_def capture_block_def wrap_sample_def make_shared_def CFRetain_def
      fresh_world_def blank_sample_def hand_off_body_def alloc_img_def Let_def
      int_of_size_t_def sp_copy_def sp_release_def pull_image_def push_accepts_def)

section \<open>The guard around the overwrite\<close>

lemma map_fst_trace: "map fst (trace f ss st) = take (length (trace f ss st)) ss"
  by (induction ss arbitrary: st) (auto simp del: exec.simps split: sum.splits)

lemma length_trace: "exec_all f ss st = Inr st' \<Longrightarrow> length (trace f ss st) = length ss"
  by (induction ss arbitrary: st) (auto simp del: exec.simps split: sum.splits)

lemma last_trace:
  "exec_all f ss st = Inr st' \<Longrightarrow> ss \<noteq> [] \<Longrightarrow> snd (last (trace f ss st)) = st'"
proof (induction ss arbitrary: st)
  case Nil
  then show ?case by simp
next
  case (Cons s ss)
  from Cons.prems(1) obtain st1 where
    step: "exec f s st = Inr st1" and rest: "exec_all f ss st1 = Inr st'"
    by (auto simp del: exec.simps split: sum.splits)
  show ?case
  proof (cases "ss = []")
    case True
    with step rest show ?thesis by (simp del: exec.simps)
  next
    case False
    with length_trace [OF rest] have "trace f ss st1 \<noteq> []" by auto
    with step Cons.IH [OF rest False] show ?thesis by (simp del: exec.simps)
  qed
qed

text \<open>
  C1. The hand-off of both blocks is the statement sequence \<open>hand_off_body\<close>, run on
  \<open>img_out\<close> in \<open>capture\<close> and on \<open>img\<close> in \<open>dummy_img\<close>. Let the target image hold
  wrappers that are alive when the hand-off starts. Then in the run, which follows the
  order of \<open>hand_off_body\<close>: the guard is constructed first, while the image is still
  untouched; after every statement up to the last overwrite the guard holds the old
  sample wrapper, the old pixel wrapper and the old data pointer, both old wrappers are
  alive, and no native reference has been given back; when the last overwrite
  (\<open>pixel_pitch\<close>) is done the image holds all new values, and only the following
  statement, the reset of the guard, drops the guard. A run that completes passes through
  all nine statements and ends in the state the block continues with.
\<close>

theorem retain_guard_brackets_overwrite:
  assumes img: "images w (av_img l) = Some img"
    and sample_owned: "owned Sample (sample_buffer img) 1 w"
    and pixel_owned: "owned Pixel (pixel_buffer img) 1 w"
  shows "list_all
           (\<lambda>(s, l', w').
              (s = Construct_retainer \<longrightarrow> images w' = images w)
              \<and> (s \<noteq> Reset_retainer \<longrightarrow>
                   old_data_retainer l' =
                     Some \<lparr>retained_sample_buffer = sample_buffer img,
                           retained_pixel_buffer = pixel_buffer img,
                           retained_data = data img\<rparr>
                   \<and> native_rc w' = native_rc w
                   \<and> owned Sample (sample_buffer img) 1 w'
                   \<and> owned Pixel (pixel_buffer img) 1 w')
              \<and> (s = Assign_pixel_pitch \<or> s = Reset_retainer \<longrightarrow>
                   (s = Reset_retainer) = (old_data_retainer l' = None)
                   \<and> images w' (av_img l) =
                       Some \<lparr>sample_buffer = Some (new_sample_buffer l),
                             pixel_buffer = Some (new_pixel_buffer l),
                             data = px_base_address f,
                             width = int_of_size_t (px_width f),
                             height = int_of_size_t (px_height f),
                             row_pitch = int_of_size_t (px_bytes_per_row f),
                             pixel_pitch = int_of_size_t (px_bytes_per_row f)
                                             sdiv int_of_size_t (px_width f)\<rparr>))
           (trace f hand_off_body (l, w))
         \<and> map fst (trace f hand_off_body (l, w))
             = take (length (trace f hand_off_body (l, w))) hand_off_body
         \<and> (\<forall>st'. exec_all f hand_off_body (l, w) = Inr st' \<longrightarrow>
               length (trace f hand_off_body (l, w)) = length hand_off_body
               \<and> snd (last (trace f hand_off_body (l, w))) = st')"
proof -
  let ?a = "sample_buffer img" and ?p = "pixel_buffer img"
  define w1 where "w1 = sp_copy Pixel ?p (sp_copy Sample ?a w)"
  define x2 where "x2 = (sp_copy Sample (Some (new_sample_buffer l)) w1)
     \<lparr>images := (images w)(av_img l \<mapsto> img\<lparr>sample_buffer := Some (new_sample_buffer l)\<rparr>)\<rparr>"
  define w2 where "w2 = sp_release Sample ?a x2"
  define x3 where "x3 = (sp_copy Pixel (Some (new_pixel_buffer l)) w2)
     \<lparr>images := (images w)(av_img l \<mapsto> img\<lparr>sample_buffer := Some (new_sample_buffer l),
          pixel_buffer := Some (new_pixel_buffer l)\<rparr>)\<rparr>"
  define w3 where "w3 = sp_release Pixel ?p x3"
  have s1: "owned Sample ?a 2 w1" and p1: "owned Pixel ?p 2 w1"
    using owned_sp_copy_other [OF owned_sp_copy_same [OF sample_owned], of Pixel ?p]
      owned_sp_copy_same [OF owned_sp_copy_other [OF pixel_owned, of Sample ?a]]
    by (simp_all add: w1_def numeral_2_eq_2)
  have r1: "native_rc w1 = native_rc w"
    by (simp add: w1_def)
  have sx2: "owned Sample ?a 2 x2" and px2: "owned Pixel ?p 2 x2"
    using owned_sp_copy_other [OF s1] owned_sp_copy_other [OF p1]
    by (simp_all add: x2_def)
  have s2: "owned Sample ?a 1 w2" and p2: "owned Pixel ?p 2 w2"
    and r2: "native_rc w2 = native_rc w"
    using owned_sp_release_same [of Sample ?a 0 x2] sx2
      owned_sp_release_other [OF _ px2, of Sample ?a]
      native_rc_sp_release [OF sx2] r1
    by (simp_all add: w2_def numeral_2_eq_2) (simp add: x2_def)
  have sx3: "owned Sample ?a 1 x3" and px3: "owned Pixel ?p 2 x3"
    using owned_sp_copy_other [OF s2] owned_sp_copy_other [OF p2]
    by (simp_all add: x3_def)
  have s3: "owned Sample ?a 1 w3" and p3: "owned Pixel ?p 1 w3"
    and r3: "native_rc w3 = native_rc w"
    using owned_sp_release_same [of Pixel ?p 0 x3] px3
      owned_sp_release_other [OF _ sx3, of Pixel ?p]
      native_rc_sp_release [OF px3] r2
    by (simp_all add: w3_def numeral_2_eq_2) (simp add: x3_def)
  have i1: "images w1 = images w"
    by (simp add: w1_def)
  have i2: "images w2 = (images w)(av_img l \<mapsto> img\<lparr>sample_buffer := Some (new_sample_buffer l)\<rparr>)"
    by (simp add: w2_def x2_def)
  have i3: "images w3 = (images w)(av_img l \<mapsto> img\<lparr>sample_buffer := Some (new_sample_buffer l),
          pixel_buffer := Some (new_pixel_buffer l)\<rparr>)"
    by (simp add: w3_def x3_def)
  have e1: "exec f Construct_retainer (l, w) =
      Inr (l\<lparr>old_data_retainer := Some \<lparr>retained_sample_buffer = ?a,
             retained_pixel_buffer = ?p, retained_data = data img\<rparr>\<rparr>, w1)"
    using img by (simp add: w1_def)
  let ?g = "l\<lparr>old_data_retainer := Some \<lparr>retained_sample_buffer = ?a,
             retained_pixel_buffer = ?p, retained_data = data img\<rparr>\<rparr>"
  have e2: "exec f Assign_sample_buffer (?g, w1) = Inr (?g, w2)"
    using img i1 by (simp add: w2_def x2_def Let_def)
  have e3: "exec f Assign_pixel_buffer (?g, w2) = Inr (?g, w3)"
    using i2 by (simp add: w3_def x3_def Let_def)
  have "hand_off_body \<noteq> []"
    by (simp add: hand_off_body_def)
  then have tie: "\<forall>st'. exec_all f hand_off_body (l, w) = Inr st' \<longrightarrow>
               length (trace f hand_off_body (l, w)) = length hand_off_body
               \<and> snd (last (trace f hand_off_body (l, w))) = st'"
    using length_trace last_trace by blast
  have "list_all
           (\<lambda>(s, l', w').
              (s = Construct_retainer \<longrightarrow> images w' = images w)
              \<and> (s \<noteq> Reset_retainer \<longrightarrow>
                   old_data_retainer l' =
                     Some \<lparr>retained_sample_buffer = sample_buffer img,
                           retained_pixel_buffer = pixel_buffer img,
                           retained_data = data img\<rparr>
                   \<and> native_rc w' = native_rc w
                   \<and> owned Sample (sample_buffer img) 1 w'
                   \<and> owned Pixel (pixel_buffer img) 1 w')
              \<and> (s = Assign_pixel_pitch \<or> s = Reset_retainer \<longrightarrow>
                   (s = Reset_retainer) = (old_data_retainer l' = None)
                   \<and> images w' (av_img l) =
                       Some \<lparr>sample_buffer = Some (new_sample_buffer l),
                             pixel_buffer = Some (new_pixel_buffer l),
                             data = px_base_address f,
                             width = int_of_size_t (px_width f),
                             height = int_of_size_t (px_height f),
                             row_pitch = int_of_size_t (px_bytes_per_row f),
                             pixel_pitch = int_of_size_t (px_bytes_per_row f)
                                             sdiv int_of_size_t (px_width f)\<rparr>))
           (trace f hand_off_body (l, w))"
    using e1 e2 e3 i1 i2 i3 r1 r2 r3 s1 s2 s3 p1 p2 p3
      owned_mono [OF s1, of 1] owned_mono [OF p1, of 1] owned_mono [OF p2, of 1]
    by (simp add: hand_off_body_def del: exec.simps) (simp add: Let_def)
  with tie map_fst_trace [of f hand_off_body "(l, w)"] show ?thesis
    by blast
qed


lemma hand_off_completes:
  assumes "images w (av_img l) = Some img"
    and "int_of_size_t (px_width f) \<noteq> 0"
    and "\<not> (int_of_size_t (px_bytes_per_row f) = - (2 ^ 31) \<and> int_of_size_t (px_width f) = - 1)"
  shows "\<exists>st'. exec_all f hand_off_body (l, w) = Inr st'"
  using assms by (simp add: hand_off_body_def Let_def split: option.splits)

theorem retain_guard_brackets_overwrite_witness:
  "list_all
     (\<lambda>(s, l', w').
        (s \<noteq> Reset_retainer \<longrightarrow>
           old_data_retainer l' \<noteq> None
           \<and> native_rc w' 10 = 1 \<and> native_rc w' 20 = 1
           \<and> owned Sample (Some 0) 1 w' \<and> owned Pixel (Some 0) 1 w'))
     (trace second_sample hand_off_body
        (\<lparr>new_sample_buffer = 1, new_pixel_buffer = 1, av_img = 0, old_data_retainer = None\<rparr>,
         snd (wrap_sample second_sample used_world)))
   \<and> map fst (trace second_sample hand_off_body
        (\<lparr>new_sample_buffer = 1, new_pixel_buffer = 1, av_img = 0, old_data_retainer = None\<rparr>,
         snd (wrap_sample second_sample used_world))) = hand_off_body"
proof -
  define l where
    "l = \<lparr>new_sample_buffer = 1, new_pixel_buffer = 1, av_img = 0, old_data_retainer = None\<rparr>"
  define w where "w = snd (wrap_sample second_sample used_world)"
  define img where
    "img = \<lparr>sample_buffer = Some 0, pixel_buffer = Some 0, data = 4096,
            width = 4, height = 2, row_pitch = 16, pixel_pitch = 4\<rparr>"
  define T where "T = trace second_sample hand_off_body (l, w)"
  have img: "images w (av_img l) = Some img"
    by (simp add: w_def l_def img_def used_world_def)
  have so: "owned Sample (sample_buffer img) 1 w"
    and po: "owned Pixel (pixel_buffer img) 1 w"
    by (simp_all add: owned_def wrap_sample_def make_shared_def CFRetain_def used_world_def
        second_sample_def Let_def w_def img_def)
  have rc: "native_rc w 10 = 1" "native_rc w 20 = 1"
    by (simp_all add: wrap_sample_def make_shared_def CFRetain_def used_world_def
        second_sample_def Let_def w_def)
  have "\<exists>st'. exec_all second_sample hand_off_body (l, w) = Inr st'"
    by (rule hand_off_completes [OF img]) (simp_all add: second_sample_def int_of_size_t_def)
  then obtain st' where run: "exec_all second_sample hand_off_body (l, w) = Inr st'" ..
  note main = retain_guard_brackets_overwrite [OF img so po, of second_sample, folded T_def]
  from main run have len: "length T = length hand_off_body"
    by (simp add: T_def)
  from main have "list_all
     (\<lambda>(s, l', w').
        (s \<noteq> Reset_retainer \<longrightarrow>
           old_data_retainer l' \<noteq> None
           \<and> native_rc w' 10 = 1 \<and> native_rc w' 20 = 1
           \<and> owned Sample (Some 0) 1 w' \<and> owned Pixel (Some 0) 1 w')) T"
    using rc by (auto simp: list_all_iff img_def)
  moreover from main len have "map fst T = hand_off_body"
    by simp
  ultimately show ?thesis
    by (simp add: T_def l_def w_def)
qed


section \<open>Waiting for the capture semaphore\<close>

abbreviation armed ::
  "('f, 'w) SCFrameCallbackBlock \<Rightarrow> ('f, 'w) ApolloScreenCapture \<Rightarrow> ('f, 'w) ApolloScreenCapture"
  where "armed cb sc \<equiv> snd (ApolloScreenCapture_capture cb sc)"

lemma wait_signalled:
  "k < length (semaphores self) \<Longrightarrow> 0 < semaphores self ! k \<Longrightarrow>
     dispatch_semaphore_wait k es (self, w)
       = Returns (self\<lparr>semaphores := (semaphores self)[k := semaphores self ! k - 1]\<rparr>, w)"
  by (cases es) simp_all

lemma fst_capture [simp]:
  "fst (ApolloScreenCapture_capture cb sc) = length (semaphores sc)"
  by (simp add: ApolloScreenCapture_capture_def Let_def)

lemma armed_simps [simp]:
  "semaphores (armed cb sc) = semaphores sc @ [0]"
  "captureSemaphore (armed cb sc) = Some (length (semaphores sc))"
  "frameCallback (armed cb sc) = Some cb"
  "isCapturing (armed cb sc) = isCapturing sc"
  by (simp_all add: ApolloScreenCapture_capture_def Let_def split: option.splits)

lemma stream_armed:
  "stream (armed cb sc) =
     (case stream sc of None \<Rightarrow> None
      | Some st \<Rightarrow> Some (st\<lparr>start_requests := start_requests st + 1\<rparr>))"
  by (simp add: ApolloScreenCapture_capture_def Let_def split: option.splits)

lemma stopCapture_simps [simp]:
  "semaphores (stopCapture self) = semaphores self"
  "captureSemaphore (stopCapture self) = captureSemaphore self"
  "frameCallback (stopCapture self) = frameCallback self"
  "isCapturing (stopCapture self) = isCapturing self"
  by (simp_all add: stopCapture_def split: option.splits)

lemma wait_start_failed:
  "dispatch_semaphore_wait (length (semaphores sc)) (Start_completed True # es) (armed cb sc, w)
     = Returns (armed cb sc, w)"
  by (simp add: startCapture_completed_def dispatch_semaphore_signal_def wait_signalled)

lemma wait_stop_called:
  "dispatch_semaphore_wait (length (semaphores sc))
     (Start_completed False # Stop_capture_called # Stop_completed err # es) (armed cb sc, w)
     = Returns ((stopCapture ((armed cb sc)\<lparr>isCapturing := True\<rparr>))\<lparr>isCapturing := False\<rparr>, w)"
  by (simp add: startCapture_completed_def stopCapture_completed_def
      dispatch_semaphore_signal_def wait_signalled Let_def)

lemma wait_round_trip:
  assumes "cb f w = Inr (False, w')"
  shows "dispatch_semaphore_wait (length (semaphores sc))
     (Start_completed False # Output_sample f SCStreamOutputTypeScreen # Stop_completed err # es)
     (armed cb sc, w)
     = Returns ((stopCapture ((armed cb sc)\<lparr>isCapturing := True\<rparr>))\<lparr>isCapturing := False\<rparr>, w')"
  using assms
  by (simp add: startCapture_completed_def stopCapture_completed_def
      stream_didOutputSampleBuffer_def
      dispatch_semaphore_signal_def wait_signalled Let_def)

lemma stopCapture_requests:
  "isCapturing self \<Longrightarrow> stream self = Some st \<Longrightarrow>
     stopCapture self = self\<lparr>stream := Some (st\<lparr>stop_requests := stop_requests st + 1\<rparr>)\<rparr>"
  by (simp add: stopCapture_def)

lemma stopCapture_idle: "\<not> isCapturing self \<Longrightarrow> stopCapture self = self"
  by (simp add: stopCapture_def)


lemma capture_unfold:
  "sc_capture this = Some sc \<Longrightarrow>
   capture push pull events (this, w) =
     (case dispatch_semaphore_wait (length (semaphores sc)) events
             (armed (capture_block push pull) sc, w) of
        Returns (sc2, w') \<Rightarrow> Returns (ok, this\<lparr>sc_capture := Some sc2\<rparr>, w')
      | Blocked \<Rightarrow> Blocked
      | Faulted e \<Rightarrow> Faulted e)"
  by (simp add: capture_def split_beta split: outcome.splits)

lemma dummy_img_unfold:
  "sc_capture this = Some sc \<Longrightarrow>
   dummy_img True img events (this, w) =
     (case dispatch_semaphore_wait (length (semaphores sc)) events
             (armed (dummy_img_block img) sc, w) of
        Returns (sc2, w') \<Rightarrow> Returns (0, this\<lparr>sc_capture := Some sc2\<rparr>, w')
      | Blocked \<Rightarrow> Blocked
      | Faulted e \<Rightarrow> Faulted e)"
  by (simp add: dummy_img_def split_beta split: outcome.splits)

section \<open>Stopping\<close>

text \<open>
  C8 (amended). \<open>stopCapture\<close> on a session that is not capturing changes nothing, so a
  second stop after the first one has completed is a no-op. On a capturing session it asks
  the stream to stop, and the completion of that stop clears \<open>isCapturing\<close> and signals
  the capture semaphore. Hence a \<open>capture()\<close> whose stream has started, and which is
  stopped before any sample was delivered, returns \<open>ok\<close> once the stop completes, with
  the C++ state untouched.
\<close>

theorem stop_releases_blocked_capture:
  "(\<not> isCapturing self \<longrightarrow> stopCapture self = self)
   \<and> stopCapture (stopCapture_completed err (stopCapture self))
       = stopCapture_completed err (stopCapture self)
   \<and> (isCapturing self \<and> stream self = Some st \<longrightarrow>
        stopCapture self = self\<lparr>stream := Some (st\<lparr>stop_requests := stop_requests st + 1\<rparr>)\<rparr>)
   \<and> (isCapturing self \<and> captureSemaphore self = Some k \<and> k < length (semaphores self) \<longrightarrow>
        semaphores (stopCapture_completed err (stopCapture self)) ! k = semaphores self ! k + 1
        \<and> \<not> isCapturing (stopCapture_completed err (stopCapture self)))
   \<and> (sc_capture this = Some sc \<longrightarrow>
        capture push pull (Start_completed False # Stop_capture_called # Stop_completed err # es)
          (this, w)
        = Returns (ok,
            this\<lparr>sc_capture := Some
              ((stopCapture ((armed (capture_block push pull) sc)\<lparr>isCapturing := True\<rparr>))
                 \<lparr>isCapturing := False\<rparr>)\<rparr>,
            w))"
proof -
  have idle: "\<not> isCapturing self \<longrightarrow> stopCapture self = self"
    by (simp add: stopCapture_idle)
  have again: "stopCapture (stopCapture_completed err (stopCapture self))
       = stopCapture_completed err (stopCapture self)"
    by (rule stopCapture_idle)
       (simp add: stopCapture_completed_def dispatch_semaphore_signal_def Let_def
          split: option.splits)
  have request: "isCapturing self \<and> stream self = Some st \<longrightarrow>
        stopCapture self = self\<lparr>stream := Some (st\<lparr>stop_requests := stop_requests st + 1\<rparr>)\<rparr>"
    by (simp add: stopCapture_requests)
  have signal: "isCapturing self \<and> captureSemaphore self = Some k \<and> k < length (semaphores self) \<longrightarrow>
        semaphores (stopCapture_completed err (stopCapture self)) ! k = semaphores self ! k + 1
        \<and> \<not> isCapturing (stopCapture_completed err (stopCapture self))"
    by (simp add: stopCapture_completed_def dispatch_semaphore_signal_def Let_def)
  have released: "sc_capture this = Some sc \<longrightarrow>
        capture push pull (Start_completed False # Stop_capture_called # Stop_completed err # es)
          (this, w)
        = Returns (ok,
            this\<lparr>sc_capture := Some
              ((stopCapture ((armed (capture_block push pull) sc)\<lparr>isCapturing := True\<rparr>))
                 \<lparr>isCapturing := False\<rparr>)\<rparr>,
            w)"
    by (simp add: capture_unfold wait_stop_called del: dispatch_semaphore_wait.simps)
  from idle again request signal released show ?thesis
    by (intro conjI)
qed


theorem stop_releases_blocked_capture_witness:
  "stopCapture ready_session = ready_session
   \<and> stopCapture ((armed (capture_block push_accepts (pull_image 0)) ready_session)
                     \<lparr>isCapturing := True\<rparr>)
       = (armed (capture_block push_accepts (pull_image 0)) ready_session)
           \<lparr>isCapturing := True,
             stream := Some \<lparr>start_requests = 1, stop_requests = 1, update_requests = 0\<rparr>\<rparr>
   \<and> semaphores (stopCapture_completed False
         (stopCapture ((armed (capture_block push_accepts (pull_image 0)) ready_session)
                         \<lparr>isCapturing := True\<rparr>))) ! 0 = 1
   \<and> capture push_accepts (pull_image 0)
         [Start_completed False, Stop_capture_called, Stop_completed False]
         (ready_display, fresh_world)
       = Returns (ok,
           ready_display\<lparr>sc_capture := Some
             ((stopCapture ((armed (capture_block push_accepts (pull_image 0)) ready_session)
                              \<lparr>isCapturing := True\<rparr>))\<lparr>isCapturing := False\<rparr>)\<rparr>,
           fresh_world)"
proof -
  let ?cb = "capture_block push_accepts (pull_image 0)"
  let ?s = "(armed ?cb ready_session)\<lparr>isCapturing := True\<rparr>"
  have idle: "\<not> isCapturing ready_session"
    by (simp add: ready_session_def)
  have cap: "isCapturing ?s" "captureSemaphore ?s = Some 0" "0 < length (semaphores ?s)"
    "semaphores ?s ! 0 = 0"
    "stream ?s = Some \<lparr>start_requests = 1, stop_requests = 0, update_requests = 0\<rparr>"
    by (simp_all add: ready_session_def stream_armed)
  have disp: "sc_capture ready_display = Some ready_session"
    by (simp add: ready_display_def)
  note t1 = stop_releases_blocked_capture [where self = ready_session, THEN conjunct1]
  note t = stop_releases_blocked_capture
         [where self = "?s" and err = False and k = 0 and this = ready_display
            and sc = ready_session and push = push_accepts and pull = "pull_image 0"
            and es = "[]" and w = fresh_world
            and st = "\<lparr>start_requests = 1, stop_requests = 0, update_requests = 0\<rparr>"]
  note t3 = t [THEN conjunct2, THEN conjunct2, THEN conjunct1]
  note t4 = t [THEN conjunct2, THEN conjunct2, THEN conjunct2, THEN conjunct1]
  note t5 = t [THEN conjunct2, THEN conjunct2, THEN conjunct2, THEN conjunct2]
  from t1 idle have 1: "stopCapture ready_session = ready_session"
    by simp
  from t3 cap
  have 2: "stopCapture ?s = ?s\<lparr>stream :=
             Some \<lparr>start_requests = 1, stop_requests = 1, update_requests = 0\<rparr>\<rparr>"
    by simp
  from t4 cap have 3: "semaphores (stopCapture_completed False (stopCapture ?s)) ! 0 = 1"
    by simp
  from t5 disp
  have 4: "capture push_accepts (pull_image 0)
         [Start_completed False, Stop_capture_called, Stop_completed False]
         (ready_display, fresh_world)
       = Returns (ok,
           ready_display\<lparr>sc_capture := Some ((stopCapture ?s)\<lparr>isCapturing := False\<rparr>)\<rparr>,
           fresh_world)"
    by simp
  from 1 2 3 4 show ?thesis
    by simp
qed

text \<open>
  C8 as stated fails: \<open>capture()\<close> is blocked from the moment \<open>capture:\<close> has returned
  the semaphore, but \<open>isCapturing\<close> is set only by the completion handler of the start
  request. A \<open>stopCapture\<close> that arrives in between is the no-op case; the stream then
  starts, nothing signals the semaphore, and \<open>capture()\<close> stays blocked.
\<close>

theorem stop_before_start_counterexample:
  "capture push_accepts (pull_image 0) [Stop_capture_called, Start_completed False]
     (ready_display, fresh_world) = Blocked
   \<and> stopCapture (armed (capture_block push_accepts (pull_image 0)) ready_session)
       = armed (capture_block push_accepts (pull_image 0)) ready_session"
  by (simp add: capture_unfold ready_display_def startCapture_completed_def stopCapture_idle
      ready_session_def)

section \<open>What capture returns\<close>

text \<open>
  C5 (amended). \<open>capture()\<close> never returns an error: whenever it returns, the result is
  \<open>ok\<close>. When the start request fails, the handler signals the capture semaphore and
  \<open>capture()\<close> returns \<open>ok\<close> with nothing delivered. It returns \<open>ok\<close> as well when the
  block asks to stop for a delivered sample (the consumer's callbacks request termination)
  and the stop completes, and when the capturing session is stopped and the stop completes.
\<close>

theorem capture_returns_ok:
  "(capture push pull events st = Returns (r, st') \<longrightarrow> r = ok)
   \<and> (sc_capture this = Some sc \<longrightarrow>
        capture push pull (Start_completed True # es) (this, w)
        = Returns (ok, this\<lparr>sc_capture := Some (armed (capture_block push pull) sc)\<rparr>, w))
   \<and> (sc_capture this = Some sc \<and> capture_block push pull f w = Inr (False, w') \<longrightarrow>
        capture push pull
          (Start_completed False # Output_sample f SCStreamOutputTypeScreen
             # Stop_completed err # es) (this, w)
        = Returns (ok,
            this\<lparr>sc_capture := Some
              ((stopCapture ((armed (capture_block push pull) sc)\<lparr>isCapturing := True\<rparr>))
                 \<lparr>isCapturing := False\<rparr>)\<rparr>,
            w'))
   \<and> (sc_capture this = Some sc \<longrightarrow>
        capture push pull (Start_completed False # Stop_capture_called # Stop_completed err # es)
          (this, w)
        = Returns (ok,
            this\<lparr>sc_capture := Some
              ((stopCapture ((armed (capture_block push pull) sc)\<lparr>isCapturing := True\<rparr>))
                 \<lparr>isCapturing := False\<rparr>)\<rparr>,
            w))"
proof -
  have only_ok: "capture push pull events st = Returns (r, st') \<longrightarrow> r = ok"
    by (auto simp: capture_def split: prod.splits option.splits outcome.splits)
  have start_failed: "sc_capture this = Some sc \<longrightarrow>
        capture push pull (Start_completed True # es) (this, w)
        = Returns (ok, this\<lparr>sc_capture := Some (armed (capture_block push pull) sc)\<rparr>, w)"
    by (simp add: capture_unfold wait_start_failed del: dispatch_semaphore_wait.simps)
  have rejected: "sc_capture this = Some sc \<and> capture_block push pull f w = Inr (False, w') \<longrightarrow>
        capture push pull
          (Start_completed False # Output_sample f SCStreamOutputTypeScreen
             # Stop_completed err # es) (this, w)
        = Returns (ok,
            this\<lparr>sc_capture := Some
              ((stopCapture ((armed (capture_block push pull) sc)\<lparr>isCapturing := True\<rparr>))
                 \<lparr>isCapturing := False\<rparr>)\<rparr>,
            w')"
    by (simp add: capture_unfold wait_round_trip del: dispatch_semaphore_wait.simps)
  have stopped: "sc_capture this = Some sc \<longrightarrow>
        capture push pull (Start_completed False # Stop_capture_called # Stop_completed err # es)
          (this, w)
        = Returns (ok,
            this\<lparr>sc_capture := Some
              ((stopCapture ((armed (capture_block push pull) sc)\<lparr>isCapturing := True\<rparr>))
                 \<lparr>isCapturing := False\<rparr>)\<rparr>,
            w)"
    by (simp add: capture_unfold wait_stop_called del: dispatch_semaphore_wait.simps)
  from only_ok start_failed rejected stopped show ?thesis
    by (intro conjI)
qed

text \<open>
  C5 as stated fails: with a start request that fails, \<open>capture()\<close> returns \<open>ok\<close>, which
  is not the error result.
\<close>

theorem capture_start_failure_counterexample:
  "capture push_accepts (pull_image 0) [Start_completed True] (ready_display, fresh_world)
     = Returns (ok,
         ready_display\<lparr>sc_capture :=
           Some (armed (capture_block push_accepts (pull_image 0)) ready_session)\<rparr>,
         fresh_world)
   \<and> ok \<noteq> error"
  by (simp add: capture_unfold wait_start_failed ready_display_def
      del: dispatch_semaphore_wait.simps)


lemma first_capture_rejected:
  "\<exists>w'. capture_block push_rejects (pull_image 0) first_sample fresh_world = Inr (False, w')"
  by (simp add: capture_block_def wrap_sample_def make_shared_def CFRetain_def
      fresh_world_def first_sample_def hand_off_body_def alloc_img_def Let_def
      int_of_size_t_def sp_copy_def sp_release_def pull_image_def push_rejects_def)

theorem capture_returns_ok_witness:
  "\<exists>d w'. capture push_rejects (pull_image 0)
       [Start_completed False, Output_sample first_sample SCStreamOutputTypeScreen,
        Stop_completed False] (ready_display, fresh_world) = Returns (ok, d, w')
     \<and> capture push_rejects (pull_image 0) [Start_completed True] (ready_display, fresh_world)
         = Returns (ok,
             ready_display\<lparr>sc_capture :=
               Some (armed (capture_block push_rejects (pull_image 0)) ready_session)\<rparr>,
             fresh_world)
     \<and> capture push_rejects (pull_image 0)
         [Start_completed False, Stop_capture_called, Stop_completed False]
         (ready_display, fresh_world) = Returns (ok, d, fresh_world)"
proof -
  obtain w' where
    rej: "capture_block push_rejects (pull_image 0) first_sample fresh_world = Inr (False, w')"
    using first_capture_rejected by blast
  have disp: "sc_capture ready_display = Some ready_session"
    by (simp add: ready_display_def)
  note t = capture_returns_ok
         [where this = ready_display and sc = ready_session and push = push_rejects
            and pull = "pull_image 0" and es = "[]" and w = fresh_world and w' = w'
            and f = first_sample and err = False]
  note t2 = t [THEN conjunct2, THEN conjunct1, rule_format, OF disp]
  note t3 = t [THEN conjunct2, THEN conjunct2, THEN conjunct1, rule_format, OF conjI, OF disp rej]
  note t4 = t [THEN conjunct2, THEN conjunct2, THEN conjunct2, rule_format, OF disp]
  from t2 t3 t4 show ?thesis
    by blast
qed

section \<open>The probe\<close>

text \<open>
  C3 (amended). Without the capture permission \<open>dummy_img\<close> returns 1 and leaves the
  session and the C++ state as they are: the native capture is not invoked. With the
  permission it registers a probe block that answers "stop" for every sample it completes,
  and whenever it returns it returns 0: after one delivered sample and the completion of
  the stop that sample triggers (the state is then the one a single run of the probe block
  leaves), or, when the start request fails, without any sample.
\<close>

theorem dummy_img_probe:
  "dummy_img False img events (this, w) = Returns (1, this, w)
   \<and> (dummy_img True img events st = Returns (r, st') \<longrightarrow> r = 0)
   \<and> (dummy_img_block img f w = Inr (c, w') \<longrightarrow> \<not> c)
   \<and> (sc_capture this = Some sc \<and> dummy_img_block img f w = Inr (c, w') \<longrightarrow>
        dummy_img True img
          (Start_completed False # Output_sample f SCStreamOutputTypeScreen
             # Stop_completed err # es) (this, w)
        = Returns (0,
            this\<lparr>sc_capture := Some
              ((stopCapture ((armed (dummy_img_block img) sc)\<lparr>isCapturing := True\<rparr>))
                 \<lparr>isCapturing := False\<rparr>)\<rparr>,
            w'))
   \<and> (sc_capture this = Some sc \<longrightarrow>
        dummy_img True img (Start_completed True # es) (this, w)
        = Returns (0, this\<lparr>sc_capture := Some (armed (dummy_img_block img) sc)\<rparr>, w))"
proof -
  have denied: "dummy_img False img events (this, w) = Returns (1, this, w)"
    by (simp add: dummy_img_def)
  have only_zero: "dummy_img True img events st = Returns (r, st') \<longrightarrow> r = 0"
    by (auto simp: dummy_img_def split: prod.splits option.splits outcome.splits)
  have stop: "dummy_img_block img f w = Inr (c, w') \<longrightarrow> \<not> c"
    by (auto simp: dummy_img_block_def split: prod.splits sum.splits)
  have round_trip: "sc_capture this = Some sc \<and> dummy_img_block img f w = Inr (c, w') \<longrightarrow>
        dummy_img True img
          (Start_completed False # Output_sample f SCStreamOutputTypeScreen
             # Stop_completed err # es) (this, w)
        = Returns (0,
            this\<lparr>sc_capture := Some
              ((stopCapture ((armed (dummy_img_block img) sc)\<lparr>isCapturing := True\<rparr>))
                 \<lparr>isCapturing := False\<rparr>)\<rparr>,
            w')"
    using stop
    by (auto simp: dummy_img_unfold wait_round_trip simp del: dispatch_semaphore_wait.simps)
  have start_failed: "sc_capture this = Some sc \<longrightarrow>
        dummy_img True img (Start_completed True # es) (this, w)
        = Returns (0, this\<lparr>sc_capture := Some (armed (dummy_img_block img) sc)\<rparr>, w)"
    by (simp add: dummy_img_unfold wait_start_failed del: dispatch_semaphore_wait.simps)
  from denied only_zero stop round_trip start_failed show ?thesis
    by (intro conjI)
qed

text \<open>
  C3 as stated fails: with the permission granted and a start request that fails,
  \<open>dummy_img\<close> returns 0 although no sample was delivered and the image was never
  written: no round trip took place.
\<close>

theorem dummy_img_start_failure_counterexample:
  "dummy_img True 0 [Start_completed True] (ready_display, fresh_world)
     = Returns (0,
         ready_display\<lparr>sc_capture := Some (armed (dummy_img_block 0) ready_session)\<rparr>,
         fresh_world)"
  by (simp add: dummy_img_unfold wait_start_failed ready_display_def
      del: dispatch_semaphore_wait.simps)

theorem dummy_img_probe_witness:
  "\<exists>w'. dummy_img_block 0 first_sample fresh_world = Inr (False, w')
     \<and> dummy_img True 0
         [Start_completed False, Output_sample first_sample SCStreamOutputTypeScreen,
          Stop_completed False] (ready_display, fresh_world)
       = Returns (0,
           ready_display\<lparr>sc_capture := Some
             ((stopCapture ((armed (dummy_img_block 0) ready_session)\<lparr>isCapturing := True\<rparr>))
                \<lparr>isCapturing := False\<rparr>)\<rparr>,
           w')
     \<and> dummy_img True 0 [Start_completed True] (ready_display, fresh_world)
       = Returns (0,
           ready_display\<lparr>sc_capture := Some (armed (dummy_img_block 0) ready_session)\<rparr>,
           fresh_world)"
proof -
  obtain w' where run: "dummy_img_block 0 first_sample fresh_world = Inr (False, w')"
    using first_dummy_run by blast
  have disp: "sc_capture ready_display = Some ready_session"
    by (simp add: ready_display_def)
  note t = dummy_img_probe
         [where this = ready_display and sc = ready_session and img = 0 and es = "[]"
            and w = fresh_world and w' = w' and f = first_sample and err = False and c = False]
  note t4 = t [THEN conjunct2, THEN conjunct2, THEN conjunct2, THEN conjunct1, rule_format,
               OF conjI, OF disp run]
  note t5 = t [THEN conjunct2, THEN conjunct2, THEN conjunct2, THEN conjunct2, rule_format,
               OF disp]
  from run t4 t5 show ?thesis
    by blast
qed


section \<open>Rejected frames\<close>

lemma leave_block_after_wrap:
  "wrap_sample f w = (new, w1) \<Longrightarrow>
     native_rc (leave_block new (w1\<lparr>consumer := c\<rparr>)) = native_rc w"
  by (auto simp: wrap_sample_def make_shared_def leave_block_def sp_release_def
        CFRetain_def CFRelease_def Let_def nth_append fun_eq_iff split: option.splits)

text \<open>
  C6 (amended). In the block of \<open>capture\<close>: when \<open>pull_free_image_cb\<close> reports failure,
  the block answers "stop", no image is modified, every native reference taken for the
  sample is given back, and the consumer's state is the one the pull left (nothing is
  pushed). When the pull succeeds and \<open>push_captured_image_cb\<close> reports failure after
  the hand-off, the block answers "stop" as well. For a block that answers "stop",
  \<open>stream:didOutputSampleBuffer:ofType:\<close> calls \<open>stopCapture\<close>. That call asks the
  stream to stop when the session is capturing, as it is once the completion handler of the
  start request has run; for a sample delivered while \<open>isCapturing\<close> is not set it does
  nothing.
\<close>

theorem rejected_frame_stops_capture:
  "(pull (consumer w) = ((False, io), c1) \<longrightarrow>
      (\<exists>w'. capture_block push pull f w = Inr (False, w')
         \<and> images w' = images w \<and> native_rc w' = native_rc w \<and> consumer w' = c1))
   \<and> (pull (consumer w) = ((True, Some i), c1) \<and> push i True c1 = (False, c2)
        \<and> capture_block push pull f w = Inr (r, w') \<longrightarrow>
      \<not> r \<and> consumer w' = c2)
   \<and> (frameCallback self = Some cb \<and> cb f w = Inr (False, w') \<longrightarrow>
        stream_didOutputSampleBuffer f SCStreamOutputTypeScreen (self, w)
          = Inr (stopCapture self, w'))
   \<and> (isCapturing self \<and> stream self = Some st \<longrightarrow>
        stopCapture self = self\<lparr>stream := Some (st\<lparr>stop_requests := stop_requests st + 1\<rparr>)\<rparr>)
   \<and> (\<not> isCapturing self \<longrightarrow> stopCapture self = self)
   \<and> startCapture_completed False (armed cb sc) = Inr ((armed cb sc)\<lparr>isCapturing := True\<rparr>)
   \<and> (stream sc = Some st \<and> cb f w = Inr (False, w') \<longrightarrow>
        stream_didOutputSampleBuffer f SCStreamOutputTypeScreen
          ((armed cb sc)\<lparr>isCapturing := True\<rparr>, w)
        = Inr ((armed cb sc)
                 \<lparr>isCapturing := True,
                   stream := Some (st\<lparr>start_requests := start_requests st + 1,
                                     stop_requests := stop_requests st + 1\<rparr>)\<rparr>, w'))"
proof -
  obtain new w1 where wrap: "wrap_sample f w = (new, w1)"
    by (cases "wrap_sample f w")
  have c: "consumer w1 = consumer w" and i: "images w1 = images w"
    using consumer_wrap_sample [of f w] images_wrap_sample [of f w] wrap by simp_all
  have pull_failed: "pull (consumer w) = ((False, io), c1) \<longrightarrow>
      (\<exists>w'. capture_block push pull f w = Inr (False, w')
         \<and> images w' = images w \<and> native_rc w' = native_rc w \<and> consumer w' = c1)"
    using wrap c i leave_block_after_wrap [OF wrap, of c1]
    by (simp add: capture_block_def Let_def)
  have push_failed: "pull (consumer w) = ((True, Some i), c1) \<and> push i True c1 = (False, c2)
        \<and> capture_block push pull f w = Inr (r, w') \<longrightarrow> \<not> r \<and> consumer w' = c2"
  proof
    assume a: "pull (consumer w) = ((True, Some i), c1) \<and> push i True c1 = (False, c2)
        \<and> capture_block push pull f w = Inr (r, w')"
    then obtain l w3 where
      ho: "exec_all f hand_off_body
             (\<lparr>new_sample_buffer = fst new, new_pixel_buffer = snd new,
               av_img = i, old_data_retainer = None\<rparr>, w1\<lparr>consumer := c1\<rparr>) = Inr (l, w3)"
      using wrap c
      by (auto simp: capture_block_def Let_def split: sum.splits)
    from hand_off_installs [OF ho] have "consumer w3 = c1"
      by auto
    with a wrap c ho show "\<not> r \<and> consumer w' = c2"
      by (auto simp: capture_block_def Let_def)
  qed
  have reaction: "frameCallback self = Some cb \<and> cb f w = Inr (False, w') \<longrightarrow>
        stream_didOutputSampleBuffer f SCStreamOutputTypeScreen (self, w)
          = Inr (stopCapture self, w')"
    by (simp add: stream_didOutputSampleBuffer_def)
  have request: "isCapturing self \<and> stream self = Some st \<longrightarrow>
        stopCapture self = self\<lparr>stream := Some (st\<lparr>stop_requests := stop_requests st + 1\<rparr>)\<rparr>"
    by (simp add: stopCapture_def)
  have idle: "\<not> isCapturing self \<longrightarrow> stopCapture self = self"
    by (simp add: stopCapture_idle)
  have started: "startCapture_completed False (armed cb sc)
      = Inr ((armed cb sc)\<lparr>isCapturing := True\<rparr>)"
    by (simp add: startCapture_completed_def)
  have reached: "stream sc = Some st \<and> cb f w = Inr (False, w') \<longrightarrow>
        stream_didOutputSampleBuffer f SCStreamOutputTypeScreen
          ((armed cb sc)\<lparr>isCapturing := True\<rparr>, w)
        = Inr ((armed cb sc)
                 \<lparr>isCapturing := True,
                   stream := Some (st\<lparr>start_requests := start_requests st + 1,
                                     stop_requests := stop_requests st + 1\<rparr>)\<rparr>, w')"
    by (simp add: stream_didOutputSampleBuffer_def stopCapture_def stream_armed)
  from pull_failed push_failed reaction request idle started reached show ?thesis
    by (intro conjI)
qed

lemma first_capture_rejected_world:
  "capture_block push_rejects (pull_image 0) first_sample fresh_world = Inr (False, used_world)"
  by (simp add: capture_block_def wrap_sample_def make_shared_def CFRetain_def CFRelease_def
      fresh_world_def first_sample_def hand_off_body_def alloc_img_def Let_def
      int_of_size_t_def sp_copy_def sp_release_def leave_block_def used_world_def
      pull_image_def push_rejects_def
      signed_divide_int_def fun_eq_iff split: kind.splits)

text \<open>
  C6 as stated fails: a sample that reaches the session after \<open>capture:\<close> but before the
  completion handler of the start request has set \<open>isCapturing\<close> is handed to the block,
  the consumer rejects the push, the block answers "stop", and \<open>stopCapture\<close> returns at
  its guard: the session is unchanged, no stop request has been sent to the stream, and
  when the start then completes \<open>capture()\<close> stays blocked.
\<close>

theorem frame_before_start_counterexample:
  "capture_block push_rejects (pull_image 0) first_sample fresh_world = Inr (False, used_world)
   \<and> stream_didOutputSampleBuffer first_sample SCStreamOutputTypeScreen
        (armed (capture_block push_rejects (pull_image 0)) ready_session, fresh_world)
       = Inr (armed (capture_block push_rejects (pull_image 0)) ready_session, used_world)
   \<and> stream (armed (capture_block push_rejects (pull_image 0)) ready_session)
       = Some \<lparr>start_requests = 1, stop_requests = 0, update_requests = 0\<rparr>
   \<and> capture push_rejects (pull_image 0)
        [Output_sample first_sample SCStreamOutputTypeScreen, Start_completed False]
        (ready_display, fresh_world) = Blocked"
  by (simp add: first_capture_rejected_world stream_didOutputSampleBuffer_def stopCapture_idle
      stream_armed capture_unfold ready_display_def startCapture_completed_def
      ready_session_def)

theorem rejected_frame_stops_capture_witness:
  "(\<exists>w'. capture_block push_accepts pull_fails first_sample fresh_world = Inr (False, w')
       \<and> images w' = images fresh_world \<and> native_rc w' = native_rc fresh_world
       \<and> consumer w' = [])
   \<and> capture_block push_rejects (pull_image 0) first_sample fresh_world = Inr (False, used_world)
   \<and> consumer used_world = []
   \<and> startCapture_completed False (armed (capture_block push_rejects (pull_image 0)) ready_session)
       = Inr ((armed (capture_block push_rejects (pull_image 0)) ready_session)
                \<lparr>isCapturing := True\<rparr>)
   \<and> stream_didOutputSampleBuffer first_sample SCStreamOutputTypeScreen
        ((armed (capture_block push_rejects (pull_image 0)) ready_session)
           \<lparr>isCapturing := True\<rparr>, fresh_world)
       = Inr (stopCapture ((armed (capture_block push_rejects (pull_image 0)) ready_session)
                             \<lparr>isCapturing := True\<rparr>), used_world)
   \<and> stopCapture ((armed (capture_block push_rejects (pull_image 0)) ready_session)
                     \<lparr>isCapturing := True\<rparr>)
       = (armed (capture_block push_rejects (pull_image 0)) ready_session)
           \<lparr>isCapturing := True,
             stream := Some \<lparr>start_requests = 1, stop_requests = 1, update_requests = 0\<rparr>\<rparr>
   \<and> stream_didOutputSampleBuffer first_sample SCStreamOutputTypeScreen
        ((armed (capture_block push_rejects (pull_image 0)) ready_session)
           \<lparr>isCapturing := True\<rparr>, fresh_world)
       = Inr ((armed (capture_block push_rejects (pull_image 0)) ready_session)
                \<lparr>isCapturing := True,
                  stream := Some \<lparr>start_requests = 1, stop_requests = 1,
                                  update_requests = 0\<rparr>\<rparr>, used_world)
   \<and> stopCapture (armed (capture_block push_rejects (pull_image 0)) ready_session)
       = armed (capture_block push_rejects (pull_image 0)) ready_session"
proof -
  let ?cb = "capture_block push_rejects (pull_image 0)"
  let ?a = "armed ?cb ready_session"
  let ?s = "?a\<lparr>isCapturing := True\<rparr>"
  note rej = first_capture_rejected_world
  have pf: "pull_fails (consumer fresh_world) = ((False, None), [])"
    by (simp add: pull_fails_def fresh_world_def)
  have pi: "pull_image 0 (consumer fresh_world) = ((True, Some 0), [])"
    by (simp add: pull_image_def fresh_world_def)
  have pr: "push_rejects 0 True [] = (False, [])"
    by (simp add: push_rejects_def)
  have cap: "frameCallback ?s = Some ?cb" "isCapturing ?s"
    "stream ?s = Some \<lparr>start_requests = 1, stop_requests = 0, update_requests = 0\<rparr>"
    by (simp_all add: ready_session_def stream_armed)
  have idle: "\<not> isCapturing ?a"
    by (simp add: ready_session_def)
  have st: "stream ready_session
      = Some \<lparr>start_requests = 0, stop_requests = 0, update_requests = 0\<rparr>"
    by (simp add: ready_session_def)
  note t1 = rejected_frame_stops_capture
      [where pull = pull_fails and push = push_accepts and w = fresh_world and f = first_sample
         and io = None and ?c1.0 = "[]", THEN conjunct1, rule_format, OF pf]
  note t = rejected_frame_stops_capture
      [where pull = "pull_image 0" and push = push_rejects and w = fresh_world
         and f = first_sample and i = 0 and ?c1.0 = "[]" and ?c2.0 = "[]" and r = False
         and w' = used_world and self = "?s" and cb = "?cb" and sc = ready_session
         and st = "\<lparr>start_requests = 1, stop_requests = 0, update_requests = 0\<rparr>"]
  note u = rejected_frame_stops_capture
      [where w = fresh_world and f = first_sample and w' = used_world and self = "?a"
         and cb = "?cb" and sc = ready_session
         and st = "\<lparr>start_requests = 0, stop_requests = 0, update_requests = 0\<rparr>"]
  note t2 = t [THEN conjunct2, THEN conjunct1, rule_format, OF conjI, OF pi conjI, OF pr rej]
  note t3 = t [THEN conjunct2, THEN conjunct2, THEN conjunct1, rule_format, OF conjI,
               OF cap(1) rej]
  note t4 = t [THEN conjunct2, THEN conjunct2, THEN conjunct2, THEN conjunct1, rule_format,
               OF conjI, OF cap(2) cap(3)]
  note u5 = u [THEN conjunct2, THEN conjunct2, THEN conjunct2, THEN conjunct2, THEN conjunct1,
               rule_format, OF idle]
  note u6 = u [THEN conjunct2, THEN conjunct2, THEN conjunct2, THEN conjunct2, THEN conjunct2,
               THEN conjunct1]
  note u7 = u [THEN conjunct2, THEN conjunct2, THEN conjunct2, THEN conjunct2, THEN conjunct2,
               THEN conjunct2, rule_format, OF conjI, OF st rej]
  from t4 have 4: "stopCapture ?s = ?s\<lparr>stream := Some \<lparr>start_requests = 1, stop_requests = 1,
                                        update_requests = 0\<rparr>\<rparr>"
    by simp
  from u7 have 7: "stream_didOutputSampleBuffer first_sample SCStreamOutputTypeScreen
        (?s, fresh_world)
       = Inr (?a\<lparr>isCapturing := True,
                  stream := Some \<lparr>start_requests = 1, stop_requests = 1,
                                  update_requests = 0\<rparr>\<rparr>, used_world)"
    by simp
  from t2 have 2: "consumer used_world = []"
    by simp
  from t1 rej 2 u6 t3 4 7 u5 show ?thesis
    by (intro conjI) (blast, simp_all)
qed


section \<open>The display a session is bound to\<close>

lemma targetDisplay_Nil [simp]: "targetDisplay d [] = None"
  by (simp add: targetDisplay_def)

lemma targetDisplay_None: "(targetDisplay d ds = None) = (ds = [])"
  by (cases ds) (simp_all add: targetDisplay_def split: option.splits)

lemma targetDisplay_Some:
  "targetDisplay d ds = Some t \<Longrightarrow>
     t \<in> set ds \<and> (d \<in> set ds \<longrightarrow> t = d) \<and> (d \<notin> set ds \<longrightarrow> t = hd ds)"
  by (cases ds) (auto simp: targetDisplay_def find_Some_iff find_None_iff split: option.splits if_splits)

lemma choose_empty_name: "choose_display_id [] ds m = Inr m"
  by (induction ds arbitrary: m) simp_all

lemma choose_no_match:
  "atoi name = Inr v \<Longrightarrow> word_of_int v \<notin> set ds \<Longrightarrow> choose_display_id name ds m = Inr m"
  by (induction ds arbitrary: m) auto

lemma choose_match:
  "atoi name = Inr v \<Longrightarrow> name \<noteq> [] \<Longrightarrow> word_of_int v \<in> set ds \<Longrightarrow>
     choose_display_id name ds m = Inr (word_of_int v)"
proof (induction ds arbitrary: m)
  case Nil
  then show ?case by simp
next
  case (Cons d ds)
  show ?case
  proof (cases "word_of_int v \<in> set ds")
    case True
    with Cons show ?thesis by simp
  next
    case False
    with Cons.prems have "word_of_int v = d" by simp
    with Cons.prems False show ?thesis
      by (simp add: choose_no_match)
  qed
qed

lemma initWithDisplay_Inr:
  "initWithDisplay did rate env = Inr sc \<Longrightarrow>
     targetDisplay did (content_displays env) = Some (displayID sc)
     \<and> contentFilter sc = Some (displayID sc)
     \<and> stream sc \<noteq> None \<and> \<not> isCapturing sc"
  by (auto simp: initWithDisplay_def Let_def split: if_splits option.splits)

lemma initWithDisplay_fails:
  "(\<exists>e. initWithDisplay did rate env = Inl e) =
     (setup_timed_out env \<or> content_error env \<or> content_displays env = []
      \<or> add_output_error env)"
  by (auto simp: initWithDisplay_def Let_def targetDisplay_None split: if_splits option.splits)

lemma initWithDisplay_no_display:
  "(initWithDisplay did rate env = Inl No_display_found) =
     (\<not> setup_timed_out env \<and> \<not> content_error env \<and> content_displays env = [])"
  by (auto simp: initWithDisplay_def Let_def targetDisplay_None split: if_splits option.splits)


text \<open>
  C10 (amended). \<open>display()\<close> never returns a session bound to no display. When the name
  is empty, or its number equals no listed identifier, the main display is requested. A
  returned session is bound to a display of the shareable content: the requested one when
  the content has it, else the first display of the content, to which \<open>displayID\<close> is
  updated. The selection itself fails ("No display found") exactly when the content has
  no display at all. The result is null in that case and also for a memory type other than
  system and videotoolbox, when the setup times out, when the shareable content cannot be
  fetched, and when registering the stream output fails.
\<close>

theorem display_binds_existing_display:
  "(display_name = [] \<or> (atoi display_name = Inr v \<and> word_of_int v \<notin> set (active_displays env)) \<longrightarrow>
      choose_display_id display_name (active_displays env) (main_display env)
        = Inr (main_display env))
   \<and> ((display hw display_name rate env :: fault + 'c sc_display_t option) = Inr (Some d) \<longrightarrow>
        choose_display_id display_name (active_displays env) (main_display env)
          = Inr (display_id d)
        \<and> (\<exists>sc. sc_capture d = Some sc
              \<and> displayID sc \<in> set (content_displays env)
              \<and> contentFilter sc = Some (displayID sc)
              \<and> (display_id d \<in> set (content_displays env) \<longrightarrow> displayID sc = display_id d)
              \<and> (display_id d \<notin> set (content_displays env) \<longrightarrow>
                    displayID sc = hd (content_displays env))))
   \<and> ((initWithDisplay did rate env :: setup_failure + 'c session) = Inl No_display_found) =
        (\<not> setup_timed_out env \<and> \<not> content_error env \<and> content_displays env = [])
   \<and> ((display hw display_name rate env :: fault + 'c sc_display_t option) = Inr None) =
        ((hw \<noteq> system \<and> hw \<noteq> videotoolbox)
         \<or> ((\<exists>did. choose_display_id display_name (active_displays env) (main_display env)
                     = Inr did)
            \<and> (setup_timed_out env \<or> content_error env \<or> content_displays env = []
                 \<or> add_output_error env)))"
proof -
  have main_display: "display_name = [] \<or> (atoi display_name = Inr v
          \<and> word_of_int v \<notin> set (active_displays env)) \<longrightarrow>
      choose_display_id display_name (active_displays env) (main_display env)
        = Inr (main_display env)"
    by (auto simp: choose_empty_name choose_no_match)
  have bound: "(display hw display_name rate env :: fault + 'c sc_display_t option) = Inr (Some d) \<longrightarrow>
        choose_display_id display_name (active_displays env) (main_display env)
          = Inr (display_id d)
        \<and> (\<exists>sc. sc_capture d = Some sc
              \<and> displayID sc \<in> set (content_displays env)
              \<and> contentFilter sc = Some (displayID sc)
              \<and> (display_id d \<in> set (content_displays env) \<longrightarrow> displayID sc = display_id d)
              \<and> (display_id d \<notin> set (content_displays env) \<longrightarrow>
                    displayID sc = hd (content_displays env)))"
  proof
    assume a: "(display hw display_name rate env :: fault + 'c sc_display_t option) = Inr (Some d)"
    then obtain did sc where
      ch: "choose_display_id display_name (active_displays env) (main_display env) = Inr did"
      and init: "initWithDisplay did rate env = Inr (sc :: 'c session)"
      and d: "d = \<lparr>sc_capture = Some sc, display_id = did,
                   disp_width = frameWidth sc, disp_height = frameHeight sc,
                   env_width = frameWidth sc, env_height = frameHeight sc\<rparr>"
      by (auto simp: display_def split: if_splits sum.splits)
    from initWithDisplay_Inr [OF init] targetDisplay_Some [of did "content_displays env" "displayID sc"]
    show "choose_display_id display_name (active_displays env) (main_display env)
          = Inr (display_id d)
        \<and> (\<exists>sc. sc_capture d = Some sc
              \<and> displayID sc \<in> set (content_displays env)
              \<and> contentFilter sc = Some (displayID sc)
              \<and> (display_id d \<in> set (content_displays env) \<longrightarrow> displayID sc = display_id d)
              \<and> (display_id d \<notin> set (content_displays env) \<longrightarrow>
                    displayID sc = hd (content_displays env)))"
      using ch d by simp
  qed
  have null: "((display hw display_name rate env :: fault + 'c sc_display_t option) = Inr None) =
        ((hw \<noteq> system \<and> hw \<noteq> videotoolbox)
         \<or> ((\<exists>did. choose_display_id display_name (active_displays env) (main_display env)
                     = Inr did)
            \<and> (setup_timed_out env \<or> content_error env \<or> content_displays env = []
                 \<or> add_output_error env)))"
  proof (cases "choose_display_id display_name (active_displays env) (main_display env)")
    case (Inl e)
    then show ?thesis
      by (simp add: display_def)
  next
    case (Inr did)
    show ?thesis
    proof (cases "initWithDisplay did rate env :: setup_failure + 'c session")
      case (Inl e)
      with initWithDisplay_fails [of did rate env, where 'a = CMSampleBuffer and 'b = "'c world"]
      have "setup_timed_out env \<or> content_error env \<or> content_displays env = []
                 \<or> add_output_error env"
        by blast
      with Inl Inr show ?thesis
        by (simp add: display_def)
    next
      case init: (Inr sc)
      with initWithDisplay_fails [of did rate env, where 'a = CMSampleBuffer and 'b = "'c world"]
      have "\<not> (setup_timed_out env \<or> content_error env \<or> content_displays env = []
                 \<or> add_output_error env)"
        by auto
      with init Inr show ?thesis
        by (simp add: display_def)
    qed
  qed
  have none: "((initWithDisplay did rate env :: setup_failure + 'c session) = Inl No_display_found) =
        (\<not> setup_timed_out env \<and> \<not> content_error env \<and> content_displays env = [])"
    by (rule initWithDisplay_no_display)
  from main_display bound none null show ?thesis
    by (intro conjI)
qed


lemma atoi_examples: "atoi ''2'' = Inr 2" "atoi ''7'' = Inr 7"
  by (simp_all add: atoi_def isspace_def isdigit_def)

lemma display_two: "display system ''2'' 60 two_displays = Inr (Some ready_display)"
  by (simp add: display_def atoi_examples two_displays_def initWithDisplay_def targetDisplay_def
      ready_display_def ready_session_def Let_def)

lemma display_fallback:
  "display system [] 60 (two_displays\<lparr>main_display := 7\<rparr>)
     = Inr (Some (ready_display\<lparr>display_id := 7,
                   sc_capture := Some (ready_session\<lparr>displayID := 1,
                                                    contentFilter := Some 1\<rparr>)\<rparr>))"
  by (simp add: display_def two_displays_def initWithDisplay_def targetDisplay_def
      ready_display_def ready_session_def Let_def)

text \<open>
  C10 as stated fails: the requested display is absent from the shareable content, the
  content has two displays to fall back to, and the result is null all the same, because
  registering the stream output failed.
\<close>

theorem display_null_counterexample:
  "(display system [] 60 (two_displays\<lparr>main_display := 7, add_output_error := True\<rparr>)
      :: fault + (nat list) sc_display_t option) = Inr None
   \<and> content_displays (two_displays\<lparr>main_display := 7, add_output_error := True\<rparr>) = [1, 2]
   \<and> 7 \<notin> set (content_displays (two_displays\<lparr>main_display := 7, add_output_error := True\<rparr>))"
  by (simp add: display_def two_displays_def initWithDisplay_def targetDisplay_def Let_def)

theorem display_binds_existing_display_witness:
  "choose_display_id ''7'' (active_displays two_displays) (main_display two_displays) = Inr 1
   \<and> choose_display_id [] (active_displays two_displays) (main_display two_displays) = Inr 1
   \<and> display system ''2'' 60 two_displays = Inr (Some ready_display)
   \<and> (\<exists>sc. sc_capture ready_display = Some sc
         \<and> displayID sc \<in> set (content_displays two_displays)
         \<and> contentFilter sc = Some (displayID sc)
         \<and> displayID sc = 2)
   \<and> display system [] 60 (two_displays\<lparr>main_display := 7\<rparr>)
       = Inr (Some (ready_display\<lparr>display_id := 7,
                     sc_capture := Some (ready_session\<lparr>displayID := 1,
                                                      contentFilter := Some 1\<rparr>)\<rparr>))
   \<and> (\<exists>sc. sc_capture (ready_display\<lparr>display_id := 7,
                     sc_capture := Some (ready_session\<lparr>displayID := 1,
                                                      contentFilter := Some 1\<rparr>)\<rparr>) = Some sc
         \<and> displayID sc = hd (content_displays (two_displays\<lparr>main_display := 7\<rparr>))
         \<and> displayID sc = 1)"
proof -
  let ?d = "ready_display\<lparr>display_id := 7,
                     sc_capture := Some (ready_session\<lparr>displayID := 1,
                                                      contentFilter := Some 1\<rparr>)\<rparr>"
  note t3 = display_binds_existing_display
      [where display_name = "[]" and env = "two_displays\<lparr>main_display := 7\<rparr>"
         and hw = system and rate = 60 and d = "?d", THEN conjunct2, THEN conjunct1,
         rule_format, OF display_fallback]
  from t3 obtain sc' where sc': "sc_capture ?d = Some sc'"
    "display_id ?d \<notin> set (content_displays (two_displays\<lparr>main_display := 7\<rparr>)) \<longrightarrow>
       displayID sc' = hd (content_displays (two_displays\<lparr>main_display := 7\<rparr>))"
    by blast
  then have fb: "displayID sc' = hd (content_displays (two_displays\<lparr>main_display := 7\<rparr>))"
    "displayID sc' = 1"
    by (simp_all add: two_displays_def)
  note t = display_binds_existing_display
      [where display_name = "''7''" and v = 7 and env = two_displays]
  note t' = display_binds_existing_display
      [where display_name = "[]" and env = two_displays]
  note t2 = display_binds_existing_display
      [where display_name = "''2''" and env = two_displays and hw = system and rate = 60
         and d = ready_display, THEN conjunct2, THEN conjunct1, rule_format, OF display_two]
  have a: "atoi ''7'' = Inr 7 \<and> word_of_int 7 \<notin> set (active_displays two_displays)"
    by (simp add: atoi_examples two_displays_def)
  from t [THEN conjunct1] a
  have 1: "choose_display_id ''7'' (active_displays two_displays) (main_display two_displays)
             = Inr 1"
    by (simp add: two_displays_def)
  from t' [THEN conjunct1]
  have 2: "choose_display_id [] (active_displays two_displays) (main_display two_displays) = Inr 1"
    by (simp add: two_displays_def)
  from t2 obtain sc where sc: "sc_capture ready_display = Some sc"
    "displayID sc \<in> set (content_displays two_displays)"
    "contentFilter sc = Some (displayID sc)"
    "display_id ready_display \<in> set (content_displays two_displays) \<longrightarrow>
       displayID sc = display_id ready_display"
    by blast
  then have "displayID sc = 2"
    by (simp add: ready_display_def two_displays_def)
  with sc 1 2 display_two sc' fb display_fallback show ?thesis
    by blast
qed


section \<open>The zero-copy binding\<close>

lemma av_buffer_unref_null: "frame_buf0 fr = None \<Longrightarrow> av_buffer_unref fr e = (fr, e)"
  by (simp add: av_buffer_unref_def)

lemma av_buffer_unref_keeps:
  "av_buffer_unref fr e = (fr1, e1) \<Longrightarrow>
     frame_buf0 fr1 = None \<and> frame_data3 fr1 = frame_data3 fr
     \<and> images (cxx e1) = images (cxx e) \<and> heap (cxx e1) = heap (cxx e)
     \<and> length (av_buffers e1) = length (av_buffers e)"
  by (auto simp: av_buffer_unref_def Let_def free_buffer_def CFRelease_def
        split: option.splits if_splits free_fn.splits)

lemma av_buffer_unref_releases:
  "av_buffer_unref fr e = (fr1, e1) \<Longrightarrow> frame_buf0 fr = Some r \<Longrightarrow> r < length (av_buffers e) \<Longrightarrow>
     ab_refcount (av_buffers e1 ! r) = ab_refcount (av_buffers e ! r) - 1
     \<and> (ab_refcount (av_buffers e ! r) \<le> 1 \<and> ab_free (av_buffers e ! r) = Free_buffer \<longrightarrow>
          cxx e1 = CFRelease (ab_data (av_buffers e ! r)) (cxx e))
     \<and> (1 < ab_refcount (av_buffers e ! r) \<longrightarrow> cxx e1 = cxx e)"
  by (auto simp: av_buffer_unref_def Let_def free_buffer_def split: if_splits)

text \<open>
  C7. \<open>convert\<close> returns -1 and leaves the device, its frame and all buffers as they are
  when the image has no pixel wrapper or the wrapper's native handle is null. Otherwise it
  returns 0 after these steps: the frame's previous binding is released
  (\<open>av_buffer_unref\<close>: the reference is cleared, the old buffer loses one reference, and
  the last reference of a buffer made by \<open>convert\<close> releases its pixel buffer); the native
  pixel buffer is retained once; \<open>buf[0]\<close> of the frame refers to a new buffer whose data
  is the native handle and \<open>data[3]\<close> is the native handle itself. The images and the
  wrappers are left as they are: nothing is copied.
\<close>

theorem convert_binds_native_buffer:
  "(images (cxx e) img = Some av
      \<and> (pixel_buffer av = None
           \<or> (\<exists>p. pixel_buffer av = Some p \<and> p < length (heap (cxx e) Pixel)
                  \<and> buf (heap (cxx e) Pixel ! p) = None))
      \<longrightarrow> convert img this e = Inr (- 1, this, e))
   \<and> (images (cxx e) img = Some av \<and> pixel_buffer av = Some p
        \<and> p < length (heap (cxx e) Pixel) \<and> buf (heap (cxx e) Pixel ! p) = Some h
        \<and> frame this = Some fr \<and> av_buffer_unref fr e = (fr1, e1)
      \<longrightarrow> convert img this e
            = Inr (0,
                this\<lparr>frame := Some (fr1\<lparr>frame_buf0 := Some (length (av_buffers e)),
                                         frame_data3 := Some h\<rparr>)\<rparr>,
                e1\<lparr>cxx := CFRetain h (cxx e1),
                   av_buffers := av_buffers e1
                      @ [\<lparr>ab_data = h, ab_refcount = 1, ab_free = Free_buffer\<rparr>]\<rparr>)
          \<and> native_rc (CFRetain h (cxx e1)) h = native_rc (cxx e1) h + 1
          \<and> images (CFRetain h (cxx e1)) = images (cxx e)
          \<and> heap (CFRetain h (cxx e1)) = heap (cxx e)
          \<and> (frame_buf0 fr = None \<longrightarrow> e1 = e)
          \<and> (\<forall>r. frame_buf0 fr = Some r \<and> r < length (av_buffers e) \<longrightarrow>
                ab_refcount (av_buffers e1 ! r) = ab_refcount (av_buffers e ! r) - 1
                \<and> (ab_refcount (av_buffers e ! r) \<le> 1
                     \<and> ab_free (av_buffers e ! r) = Free_buffer \<longrightarrow>
                     cxx e1 = CFRelease (ab_data (av_buffers e ! r)) (cxx e))))"
proof -
  have refused: "images (cxx e) img = Some av
      \<and> (pixel_buffer av = None
           \<or> (\<exists>p. pixel_buffer av = Some p \<and> p < length (heap (cxx e) Pixel)
                  \<and> buf (heap (cxx e) Pixel ! p) = None))
      \<longrightarrow> convert img this e = Inr (- 1, this, e)"
    by (auto simp: convert_def)
  have bound: "images (cxx e) img = Some av \<and> pixel_buffer av = Some p
        \<and> p < length (heap (cxx e) Pixel) \<and> buf (heap (cxx e) Pixel ! p) = Some h
        \<and> frame this = Some fr \<and> av_buffer_unref fr e = (fr1, e1)
      \<longrightarrow> convert img this e
            = Inr (0,
                this\<lparr>frame := Some (fr1\<lparr>frame_buf0 := Some (length (av_buffers e)),
                                         frame_data3 := Some h\<rparr>)\<rparr>,
                e1\<lparr>cxx := CFRetain h (cxx e1),
                   av_buffers := av_buffers e1
                      @ [\<lparr>ab_data = h, ab_refcount = 1, ab_free = Free_buffer\<rparr>]\<rparr>)
          \<and> native_rc (CFRetain h (cxx e1)) h = native_rc (cxx e1) h + 1
          \<and> images (CFRetain h (cxx e1)) = images (cxx e)
          \<and> heap (CFRetain h (cxx e1)) = heap (cxx e)
          \<and> (frame_buf0 fr = None \<longrightarrow> e1 = e)
          \<and> (\<forall>r. frame_buf0 fr = Some r \<and> r < length (av_buffers e) \<longrightarrow>
                ab_refcount (av_buffers e1 ! r) = ab_refcount (av_buffers e ! r) - 1
                \<and> (ab_refcount (av_buffers e ! r) \<le> 1
                     \<and> ab_free (av_buffers e ! r) = Free_buffer \<longrightarrow>
                     cxx e1 = CFRelease (ab_data (av_buffers e ! r)) (cxx e)))"
  proof (intro impI)
    assume a: "images (cxx e) img = Some av \<and> pixel_buffer av = Some p
        \<and> p < length (heap (cxx e) Pixel) \<and> buf (heap (cxx e) Pixel ! p) = Some h
        \<and> frame this = Some fr \<and> av_buffer_unref fr e = (fr1, e1)"
    then have u: "av_buffer_unref fr e = (fr1, e1)" by simp
    note k = av_buffer_unref_keeps [OF u]
    have 1: "convert img this e
            = Inr (0,
                this\<lparr>frame := Some (fr1\<lparr>frame_buf0 := Some (length (av_buffers e)),
                                         frame_data3 := Some h\<rparr>)\<rparr>,
                e1\<lparr>cxx := CFRetain h (cxx e1),
                   av_buffers := av_buffers e1
                      @ [\<lparr>ab_data = h, ab_refcount = 1, ab_free = Free_buffer\<rparr>]\<rparr>)"
      using a k by (simp add: convert_def av_buffer_create_def Let_def)
    have 2: "native_rc (CFRetain h (cxx e1)) h = native_rc (cxx e1) h + 1"
      "images (CFRetain h (cxx e1)) = images (cxx e)"
      "heap (CFRetain h (cxx e1)) = heap (cxx e)"
      using k by (simp_all add: CFRetain_def)
    have 3: "frame_buf0 fr = None \<longrightarrow> e1 = e"
      using u by (auto simp: av_buffer_unref_null)
    have 4: "\<forall>r. frame_buf0 fr = Some r \<and> r < length (av_buffers e) \<longrightarrow>
                ab_refcount (av_buffers e1 ! r) = ab_refcount (av_buffers e ! r) - 1
                \<and> (ab_refcount (av_buffers e ! r) \<le> 1
                     \<and> ab_free (av_buffers e ! r) = Free_buffer \<longrightarrow>
                     cxx e1 = CFRelease (ab_data (av_buffers e ! r)) (cxx e))"
      using av_buffer_unref_releases [OF u] by blast
    from 1 2 3 4 show "convert img this e
            = Inr (0,
                this\<lparr>frame := Some (fr1\<lparr>frame_buf0 := Some (length (av_buffers e)),
                                         frame_data3 := Some h\<rparr>)\<rparr>,
                e1\<lparr>cxx := CFRetain h (cxx e1),
                   av_buffers := av_buffers e1
                      @ [\<lparr>ab_data = h, ab_refcount = 1, ab_free = Free_buffer\<rparr>]\<rparr>)
          \<and> native_rc (CFRetain h (cxx e1)) h = native_rc (cxx e1) h + 1
          \<and> images (CFRetain h (cxx e1)) = images (cxx e)
          \<and> heap (CFRetain h (cxx e1)) = heap (cxx e)
          \<and> (frame_buf0 fr = None \<longrightarrow> e1 = e)
          \<and> (\<forall>r. frame_buf0 fr = Some r \<and> r < length (av_buffers e) \<longrightarrow>
                ab_refcount (av_buffers e1 ! r) = ab_refcount (av_buffers e ! r) - 1
                \<and> (ab_refcount (av_buffers e ! r) \<le> 1
                     \<and> ab_free (av_buffers e ! r) = Free_buffer \<longrightarrow>
                     cxx e1 = CFRelease (ab_data (av_buffers e ! r)) (cxx e)))"
      by (intro conjI)
  qed
  from refused bound show ?thesis
    by (intro conjI)
qed


theorem convert_binds_native_buffer_witness:
  "convert 0
     ((new_nv12_zero_device :: unit nv12_zero_device)
        \<lparr>frame := Some \<lparr>frame_buf0 = Some 0, frame_data3 = Some 20,
                         frame_width = 4, frame_height = 2\<rparr>\<rparr>)
     \<lparr>cxx = fresh_world,
      av_buffers = [\<lparr>ab_data = 20, ab_refcount = 1, ab_free = Free_buffer\<rparr>]\<rparr>
   = Inr (- 1,
       new_nv12_zero_device
        \<lparr>frame := Some \<lparr>frame_buf0 = Some 0, frame_data3 = Some 20,
                         frame_width = 4, frame_height = 2\<rparr>\<rparr>,
       \<lparr>cxx = fresh_world,
        av_buffers = [\<lparr>ab_data = 20, ab_refcount = 1, ab_free = Free_buffer\<rparr>]\<rparr>)
   \<and> convert 0
     ((new_nv12_zero_device :: unit nv12_zero_device)
        \<lparr>frame := Some \<lparr>frame_buf0 = Some 0, frame_data3 = Some 20,
                         frame_width = 4, frame_height = 2\<rparr>\<rparr>)
     \<lparr>cxx = used_world,
      av_buffers = [\<lparr>ab_data = 20, ab_refcount = 1, ab_free = Free_buffer\<rparr>]\<rparr>
   = Inr (0,
       new_nv12_zero_device
        \<lparr>frame := Some \<lparr>frame_buf0 = Some 1, frame_data3 = Some 20,
                         frame_width = 4, frame_height = 2\<rparr>\<rparr>,
       \<lparr>cxx = CFRetain 20 (CFRelease 20 used_world),
        av_buffers = [\<lparr>ab_data = 20, ab_refcount = 0, ab_free = Free_buffer\<rparr>,
                      \<lparr>ab_data = 20, ab_refcount = 1, ab_free = Free_buffer\<rparr>]\<rparr>)
   \<and> native_rc (CFRetain 20 (CFRelease 20 used_world)) 20 = 1
   \<and> convert 0
     ((new_nv12_zero_device :: unit nv12_zero_device)
        \<lparr>frame := Some \<lparr>frame_buf0 = Some 0, frame_data3 = Some 20,
                         frame_width = 4, frame_height = 2\<rparr>\<rparr>)
     \<lparr>cxx = used_world\<lparr>heap := (\<lambda>k. [\<lparr>buf = None, use_count = 1\<rparr>])\<rparr>,
      av_buffers = [\<lparr>ab_data = 20, ab_refcount = 1, ab_free = Free_buffer\<rparr>]\<rparr>
   = Inr (- 1,
       new_nv12_zero_device
        \<lparr>frame := Some \<lparr>frame_buf0 = Some 0, frame_data3 = Some 20,
                         frame_width = 4, frame_height = 2\<rparr>\<rparr>,
       \<lparr>cxx = used_world\<lparr>heap := (\<lambda>k. [\<lparr>buf = None, use_count = 1\<rparr>])\<rparr>,
        av_buffers = [\<lparr>ab_data = 20, ab_refcount = 1, ab_free = Free_buffer\<rparr>]\<rparr>)"
proof -
  let ?fr = "\<lparr>frame_buf0 = Some 0, frame_data3 = Some 20, frame_width = 4, frame_height = 2\<rparr>"
  let ?dev = "(new_nv12_zero_device :: unit nv12_zero_device)\<lparr>frame := Some ?fr\<rparr>"
  let ?bufs = "[\<lparr>ab_data = 20, ab_refcount = 1, ab_free = Free_buffer\<rparr>]"
  let ?ef = "\<lparr>cxx = fresh_world, av_buffers = ?bufs\<rparr>"
  let ?eu = "\<lparr>cxx = used_world, av_buffers = ?bufs\<rparr>"
  let ?er = "\<lparr>cxx = CFRelease 20 used_world,
              av_buffers = [\<lparr>ab_data = 20, ab_refcount = 0, ab_free = Free_buffer\<rparr>]\<rparr>"
  have no_wrapper: "images (cxx ?ef) 0 = Some alloc_img
      \<and> (pixel_buffer alloc_img = None
           \<or> (\<exists>p. pixel_buffer alloc_img = Some p \<and> p < length (heap (cxx ?ef) Pixel)
                  \<and> buf (heap (cxx ?ef) Pixel ! p) = None))"
    by (simp add: fresh_world_def alloc_img_def)
  have unref: "av_buffer_unref ?fr ?eu = (?fr\<lparr>frame_buf0 := None\<rparr>, ?er)"
    by (simp add: av_buffer_unref_def free_buffer_def Let_def)
  have wrapped: "images (cxx ?eu) 0
        = Some \<lparr>sample_buffer = Some 0, pixel_buffer = Some 0, data = 4096,
                 width = 4, height = 2, row_pitch = 16, pixel_pitch = 4\<rparr>
      \<and> pixel_buffer \<lparr>sample_buffer = Some 0, pixel_buffer = Some 0, data = 4096,
                 width = 4, height = 2, row_pitch = 16, pixel_pitch = 4\<rparr> = Some 0
      \<and> 0 < length (heap (cxx ?eu) Pixel) \<and> buf (heap (cxx ?eu) Pixel ! 0) = Some 20
      \<and> frame ?dev = Some ?fr \<and> av_buffer_unref ?fr ?eu = (?fr\<lparr>frame_buf0 := None\<rparr>, ?er)"
    using unref by (simp add: used_world_def)
  note t1 = convert_binds_native_buffer
      [where e = "?ef" and img = 0 and av = alloc_img and this = "?dev",
       THEN conjunct1, rule_format, OF no_wrapper]
  note t2 = convert_binds_native_buffer
      [where e = "?eu" and img = 0 and this = "?dev" and p = 0 and h = 20 and fr = "?fr"
         and ?fr1.0 = "?fr\<lparr>frame_buf0 := None\<rparr>" and ?e1.0 = "?er",
       THEN conjunct2, rule_format, OF wrapped]
  have rc: "native_rc (CFRetain 20 (CFRelease 20 used_world)) 20 = 1"
    by (simp add: CFRetain_def CFRelease_def used_world_def)
  let ?en = "\<lparr>cxx = used_world\<lparr>heap := (\<lambda>k. [\<lparr>buf = None, use_count = 1\<rparr>])\<rparr>,
              av_buffers = ?bufs\<rparr>"
  let ?im = "\<lparr>sample_buffer = Some 0, pixel_buffer = Some 0, data = 4096,
              width = 4, height = 2, row_pitch = 16, pixel_pitch = 4\<rparr>"
  have null_handle: "images (cxx ?en) 0 = Some ?im
      \<and> (pixel_buffer ?im = None
           \<or> (\<exists>p. pixel_buffer ?im = Some p \<and> p < length (heap (cxx ?en) Pixel)
                  \<and> buf (heap (cxx ?en) Pixel ! p) = None))"
    by (simp add: used_world_def)
  note t3 = convert_binds_native_buffer
      [where e = "?en" and img = 0 and av = "?im" and this = "?dev",
       THEN conjunct1, rule_format, OF null_handle]
  from t1 t2 rc t3 show ?thesis
    by simp
qed


section \<open>Selection of the encode device\<close>

text \<open>
  Only the property \<open>pixelFormat\<close> of the session is set; the stream configuration that
  \<open>initWithDisplay:frameRate:\<close> built keeps the pixel format it was given there.
\<close>

lemma make_encode_device_keeps_streamConfig:
  "streamConfig (snd (make_avcodec_encode_device fmt sc)) = streamConfig sc"
  by (simp add: make_avcodec_encode_device_def nv12_init_def setPixelFormat_def Let_def)

lemma nv12_init_status: "fst (nv12_init d pf rf pff this) = 0"
  by (simp add: nv12_init_def Let_def)

text \<open>
  C4. \<open>make_avcodec_encode_device\<close> selects by the requested pixel format. For
  \<open>yuv420p\<close> the session's pixel format becomes 32BGRA and the plain conversion device is
  returned. For \<open>nv12\<close> and \<open>p010\<close> a zero-copy device is returned, initialised with the
  session's hooks, and its \<open>init\<close> has set the session's pixel format through the
  pixel-format hook: the 8-bit bi-planar type for \<open>nv12\<close>, the 10-bit bi-planar type for
  \<open>p010\<close>. The result is null exactly for the remaining formats, where the session is
  left as it was; \<open>init\<close> itself always reports 0, so no other failure exists.
\<close>

theorem make_encode_device_selects:
  "make_avcodec_encode_device yuv420p sc =
     (Some Avcodec_encode_device, sc\<lparr>pixelFormat := kCVPixelFormatType_32BGRA\<rparr>)
   \<and> make_avcodec_encode_device nv12 sc =
     (Some (Nv12_zero_device
        (new_nv12_zero_device\<lparr>dev_display := True, resolution_fn := Some setResolution,
                               dev_data := True\<rparr>)),
      setPixelFormat sc kCVPixelFormatType_420YpCbCr8BiPlanarVideoRange)
   \<and> make_avcodec_encode_device p010 sc =
     (Some (Nv12_zero_device
        (new_nv12_zero_device\<lparr>dev_display := True, resolution_fn := Some setResolution,
                               dev_data := True\<rparr>)),
      setPixelFormat sc kCVPixelFormatType_420YpCbCr10BiPlanarVideoRange)
   \<and> pixelFormat (snd (make_avcodec_encode_device nv12 sc))
       = kCVPixelFormatType_420YpCbCr8BiPlanarVideoRange
   \<and> pixelFormat (snd (make_avcodec_encode_device p010 sc))
       = kCVPixelFormatType_420YpCbCr10BiPlanarVideoRange
   \<and> kCVPixelFormatType_420YpCbCr8BiPlanarVideoRange
       \<noteq> kCVPixelFormatType_420YpCbCr10BiPlanarVideoRange
   \<and> make_avcodec_encode_device (other_fmt n) sc = (None, sc)
   \<and> (fst (make_avcodec_encode_device fmt sc) = None) = (fmt \<notin> {yuv420p, nv12, p010})
   \<and> fst (nv12_init sc fmt setResolution setPixelFormat dev) = 0"
  by (cases fmt)
     (simp_all add: make_avcodec_encode_device_def nv12_init_def setPixelFormat_def Let_def
        kCVPixelFormatType_420YpCbCr8BiPlanarVideoRange_def
        kCVPixelFormatType_420YpCbCr10BiPlanarVideoRange_def)

end
